theory Spec2Isabelle
  imports Complex_Main
begin

section \<open>Camera parameters: the data model\<close>

subsection \<open>Double-precision values\<close>

text \<open>
  A C++ \<^verbatim>\<open>double\<close> is a finite value, one of the two infinities, or a NaN. Finite
  values are carried as reals: rounding and overflow of finite arithmetic are not part of
  this model, and zero has no sign. The special values follow IEEE 754, as the
  comparisons and the one division of \<^verbatim>\<open>CameraParams.cpp\<close> see them.
\<close>

datatype double = Finite real | PlusInf | MinusInf | NaN

fun dneg :: "double \<Rightarrow> double" where
  "dneg (Finite x) = Finite (- x)"
| "dneg PlusInf = MinusInf"
| "dneg MinusInf = PlusInf"
| "dneg NaN = NaN"

fun dadd :: "double \<Rightarrow> double \<Rightarrow> double" where
  "dadd (Finite x) (Finite y) = Finite (x + y)"
| "dadd NaN b = NaN"
| "dadd a NaN = NaN"
| "dadd PlusInf MinusInf = NaN"
| "dadd MinusInf PlusInf = NaN"
| "dadd PlusInf b = PlusInf"
| "dadd a PlusInf = PlusInf"
| "dadd MinusInf b = MinusInf"
| "dadd a MinusInf = MinusInf"

definition dsub :: "double \<Rightarrow> double \<Rightarrow> double" where
  "dsub a b = dadd a (dneg b)"

text \<open>The sign of a nonzero finite value applied to an infinity; zero times infinity is NaN.\<close>

fun scale_inf :: "real \<Rightarrow> double \<Rightarrow> double" where
  "scale_inf x d = (if x = 0 then NaN else if 0 < x then d else dneg d)"

fun dmul :: "double \<Rightarrow> double \<Rightarrow> double" where
  "dmul (Finite x) (Finite y) = Finite (x * y)"
| "dmul NaN b = NaN"
| "dmul a NaN = NaN"
| "dmul (Finite x) b = scale_inf x b"
| "dmul a (Finite y) = scale_inf y a"
| "dmul PlusInf b = b"
| "dmul MinusInf b = dneg b"

text \<open>
  Division: a nonzero finite value over zero is an infinity, zero over zero is NaN. The
  only divisor of the source is \<^verbatim>\<open>double(rate)\<close> for an \<^verbatim>\<open>int\<close>, whose zero is
  the positive zero.
\<close>

fun ddiv :: "double \<Rightarrow> double \<Rightarrow> double" where
  "ddiv (Finite x) (Finite y) = (if y = 0 then scale_inf x PlusInf else Finite (x / y))"
| "ddiv NaN b = NaN"
| "ddiv a NaN = NaN"
| "ddiv (Finite x) b = Finite 0"
| "ddiv a (Finite y) = (if 0 \<le> y then a else dneg a)"
| "ddiv a b = NaN"

fun fabs :: "double \<Rightarrow> double" where
  "fabs (Finite x) = Finite \<bar>x\<bar>"
| "fabs PlusInf = PlusInf"
| "fabs MinusInf = PlusInf"
| "fabs NaN = NaN"

text \<open>\<^verbatim>\<open>a < b\<close> on doubles: false as soon as one side is NaN.\<close>

fun dless :: "double \<Rightarrow> double \<Rightarrow> bool" where
  "dless (Finite x) (Finite y) = (x < y)"
| "dless NaN b = False"
| "dless a NaN = False"
| "dless a MinusInf = False"
| "dless PlusInf b = False"
| "dless MinusInf b = True"
| "dless a PlusInf = True"

text \<open>\<^verbatim>\<open>a > b\<close> on doubles.\<close>

definition dgreater :: "double \<Rightarrow> double \<Rightarrow> bool" where
  "dgreater a b = dless b a"

definition double_of_int :: "int \<Rightarrow> double" where
  "double_of_int i = Finite (of_int i)"

subsection \<open>Failures\<close>

text \<open>
  \<open>Abort\<close>: a failed \<^verbatim>\<open>CHECK\<close> or an exception nobody catches; the process ends.
  \<open>UndefinedBehaviour\<close>: the code indexes a vector past its end, reads a variable that
  was never set, or converts a double outside the range of \<^verbatim>\<open>int\<close>; C++ defines
  no result.
\<close>

datatype error = Abort | UndefinedBehaviour

subsection \<open>Matrices\<close>

text \<open>
  \<^verbatim>\<open>cv::Mat\<close> of doubles: the two dimensions and the elements in row-major order.
\<close>

record Mat =
  rows :: nat
  cols :: nat
  data :: "double list"

definition Mat_empty :: Mat where
  "Mat_empty = \<lparr>rows = 0, cols = 0, data = []\<rparr>"

definition Mat_zeros :: "nat \<Rightarrow> nat \<Rightarrow> Mat" where
  "Mat_zeros r c = \<lparr>rows = r, cols = c, data = replicate (r * c) (Finite 0)\<rparr>"

definition Mat_eye :: "nat \<Rightarrow> nat \<Rightarrow> Mat" where
  "Mat_eye r c =
     \<lparr>rows = r, cols = c,
      data = concat (map (\<lambda>i. map (\<lambda>j. if i = j then Finite 1 else Finite 0) [0..<c]) [0..<r])\<rparr>"

text \<open>\<^verbatim>\<open>M.at<double>(i, j)\<close>, read and written. The source only uses it within the
  dimensions of a matrix it has just created.\<close>

definition mat_at :: "Mat \<Rightarrow> nat \<Rightarrow> nat \<Rightarrow> double" where
  "mat_at M i j = data M ! (i * cols M + j)"

definition mat_set :: "Mat \<Rightarrow> nat \<Rightarrow> nat \<Rightarrow> double \<Rightarrow> Mat" where
  "mat_set M i j v = M\<lparr>data := (data M)[i * cols M + j := v]\<rparr>"

text \<open>
  \<^verbatim>\<open>A * B\<close> and \<^verbatim>\<open>A + B\<close> of OpenCV on matrices of doubles: dimensions that do
  not fit raise a \<^verbatim>\<open>cv::Exception\<close>, which \<^verbatim>\<open>parseKITTICalib\<close> does not catch.
\<close>

definition mat_entry :: "Mat \<Rightarrow> Mat \<Rightarrow> nat \<Rightarrow> nat \<Rightarrow> double" where
  "mat_entry A B i j =
     foldl dadd (Finite 0) (map (\<lambda>k. dmul (mat_at A i k) (mat_at B k j)) [0..<cols A])"

definition mat_mul :: "Mat \<Rightarrow> Mat \<Rightarrow> error + Mat" where
  "mat_mul A B =
     (if cols A \<noteq> rows B then Inl Abort
      else Inr \<lparr>rows = rows A, cols = cols B,
                data = concat (map (\<lambda>i. map (\<lambda>j. mat_entry A B i j) [0..<cols B]) [0..<rows A])\<rparr>)"

definition mat_add :: "Mat \<Rightarrow> Mat \<Rightarrow> error + Mat" where
  "mat_add A B =
     (if rows A \<noteq> rows B \<or> cols A \<noteq> cols B then Inl Abort
      else Inr \<lparr>rows = rows A, cols = cols A, data = map2 dadd (data A) (data B)\<rparr>)"

text \<open>A matrix of the given dimensions, with as many elements, all of them finite.\<close>

definition finite_mat :: "nat \<Rightarrow> nat \<Rightarrow> Mat \<Rightarrow> bool" where
  "finite_mat r c M =
     (rows M = r \<and> cols M = c \<and> length (data M) = r * c \<and>
      (\<forall>d\<in>set (data M). \<exists>x. d = Finite x))"

subsection \<open>Pose and calibration\<close>

text \<open>
  \<^verbatim>\<open>gtsam::Pose3\<close>: a rotation matrix and a translation column.
  \<^verbatim>\<open>gtsam::Cal3DS2\<close>: the nine scalars its constructor takes.
\<close>

record Pose3 =
  rotation :: Mat
  translation :: Mat

record Cal3DS2 =
  cal_fx :: double
  cal_fy :: double
  cal_s :: double
  cal_u0 :: double
  cal_v0 :: double
  cal_k1 :: double
  cal_k2 :: double
  cal_p1 :: double
  cal_p2 :: double

definition make_Cal3DS2 ::
  "double \<Rightarrow> double \<Rightarrow> double \<Rightarrow> double \<Rightarrow> double \<Rightarrow> double \<Rightarrow> double \<Rightarrow> double \<Rightarrow> double
     \<Rightarrow> Cal3DS2" where
  "make_Cal3DS2 fx fy s u0 v0 k1 k2 p1 p2 =
     \<lparr>cal_fx = fx, cal_fy = fy, cal_s = s, cal_u0 = u0, cal_v0 = v0,
      cal_k1 = k1, cal_k2 = k2, cal_p1 = p1, cal_p2 = p2\<rparr>"

text \<open>
  Modelled from the spec: the comparisons of \<^verbatim>\<open>gtsam::Pose3\<close> and
  \<^verbatim>\<open>gtsam::Cal3DS2\<close> are not part of the source. The spec has the pose and the
  projection model "equal under the same tolerance" as the intrinsics: no component
  differs by more than the tolerance.
\<close>

definition within_tol :: "double \<Rightarrow> double \<Rightarrow> double \<Rightarrow> bool" where
  "within_tol a b tol = (\<not> dgreater (fabs (dsub a b)) tol)"

definition equal_with_abs_tol :: "Mat \<Rightarrow> Mat \<Rightarrow> double \<Rightarrow> bool" where
  "equal_with_abs_tol A B tol =
     (rows A = rows B \<and> cols A = cols B \<and>
      list_all2 (\<lambda>a b. within_tol a b tol) (data A) (data B))"

definition Pose3_equals :: "Pose3 \<Rightarrow> Pose3 \<Rightarrow> double \<Rightarrow> bool" where
  "Pose3_equals p q tol =
     (equal_with_abs_tol (rotation p) (rotation q) tol \<and>
      equal_with_abs_tol (translation p) (translation q) tol)"

definition Cal3DS2_equals :: "Cal3DS2 \<Rightarrow> Cal3DS2 \<Rightarrow> double \<Rightarrow> bool" where
  "Cal3DS2_equals K L tol =
     (within_tol (cal_fx K) (cal_fx L) tol \<and> within_tol (cal_fy K) (cal_fy L) tol \<and>
      within_tol (cal_s K) (cal_s L) tol \<and> within_tol (cal_u0 K) (cal_u0 L) tol \<and>
      within_tol (cal_v0 K) (cal_v0 L) tol \<and> within_tol (cal_k1 K) (cal_k1 L) tol \<and>
      within_tol (cal_k2 K) (cal_k2 L) tol \<and> within_tol (cal_p1 K) (cal_p1 L) tol \<and>
      within_tol (cal_p2 K) (cal_p2 L) tol)"

text \<open>
  Modelled from the spec: \<^verbatim>\<open>UtilsOpenCV::CvMatCmp\<close> is not part of the source. The
  spec has every derived matrix "match elementwise"; \<^verbatim>\<open>equals\<close> does not pass its
  tolerance on to it.
\<close>

definition CvMatCmp :: "Mat \<Rightarrow> Mat \<Rightarrow> bool" where
  "CvMatCmp mat1 mat2 = (mat1 = mat2)"

subsection \<open>The camera parameters\<close>

text \<open>The members of \<^verbatim>\<open>CameraParams\<close>; the image size is \<^verbatim>\<open>cv::Size\<close>, a width and
  a height of type \<^verbatim>\<open>int\<close>.\<close>

record CameraParams =
  intrinsics :: "double list"
  body_Pose_cam :: Pose3
  frame_rate :: double
  image_size :: "int \<times> int"
  calibration :: Cal3DS2
  camera_matrix :: Mat
  distortion_coeff :: Mat
  undistRect_map_x :: Mat
  undistRect_map_y :: Mat
  R_rectify :: Mat
  P_proj :: Mat

section \<open>Equality up to a tolerance\<close>

text \<open>
  The loop of \<^verbatim>\<open>equals\<close> over \<^verbatim>\<open>intrinsics_\<close>: index \<open>i\<close> runs over this
  object's vector and reads the other's at the same index, which is past the end when the
  other vector is shorter. It stops at the first pair further apart than the tolerance.
\<close>

fun areIntrinsicEqual :: "double list \<Rightarrow> double list \<Rightarrow> double \<Rightarrow> error + bool" where
  "areIntrinsicEqual [] ys tol = Inr True"
| "areIntrinsicEqual (x # xs) [] tol = Inl UndefinedBehaviour"
| "areIntrinsicEqual (x # xs) (y # ys) tol =
     (if dgreater (fabs (dsub x y)) tol then Inr False else areIntrinsicEqual xs ys tol)"

definition equals :: "CameraParams \<Rightarrow> CameraParams \<Rightarrow> double \<Rightarrow> error + bool" where
  "equals this camPar tol =
     (case areIntrinsicEqual (intrinsics this) (intrinsics camPar) tol of
        Inl e \<Rightarrow> Inl e
      | Inr eq \<Rightarrow>
          Inr (eq \<and>
               Pose3_equals (body_Pose_cam this) (body_Pose_cam camPar) tol \<and>
               dless (fabs (dsub (frame_rate this) (frame_rate camPar))) tol \<and>
               fst (image_size this) = fst (image_size camPar) \<and>
               snd (image_size this) = snd (image_size camPar) \<and>
               Cal3DS2_equals (calibration this) (calibration camPar) tol \<and>
               CvMatCmp (camera_matrix this) (camera_matrix camPar) \<and>
               CvMatCmp (distortion_coeff this) (distortion_coeff camPar) \<and>
               CvMatCmp (undistRect_map_x this) (undistRect_map_x camPar) \<and>
               CvMatCmp (undistRect_map_y this) (undistRect_map_y camPar) \<and>
               CvMatCmp (R_rectify this) (R_rectify camPar) \<and>
               CvMatCmp (P_proj this) (P_proj camPar)))"

section \<open>The structured parser\<close>

text \<open>
  The content of an opened \<^verbatim>\<open>cv::FileStorage\<close>, by key. A key the file lacks reads
  as an empty sequence, or as 0 for \<^verbatim>\<open>rate_hz\<close> and the two dimensions of
  \<^verbatim>\<open>T_BS\<close>.
\<close>

record FileStorage =
  node_intrinsics :: "double list"
  node_distortion_coefficients :: "double list"
  node_resolution :: "int list"
  node_rate_hz :: int
  node_T_BS_rows :: int
  node_T_BS_cols :: int
  node_T_BS_data :: "double list"

text \<open>
  Modelled from the spec: \<^verbatim>\<open>UtilsOpenCV::safeOpenCVFileStorage\<close> is not part of the
  source. A path that holds no file of the structured dialect is a fatal failure.
\<close>

definition safeOpenCVFileStorage ::
  "(string \<Rightarrow> FileStorage option) \<Rightarrow> string \<Rightarrow> error + FileStorage" where
  "safeOpenCVFileStorage files filepath =
     (case files filepath of None \<Rightarrow> Inl Abort | Some fs \<Rightarrow> Inr fs)"

text \<open>
  Modelled from the spec: \<^verbatim>\<open>UtilsOpenCV::Vec2pose\<close> is not part of the source. It
  reshapes the flattened row-major sequence into a rotation (the upper left 3x3 block)
  and a translation (the first three rows of the fourth column); a shape or a sequence
  too short for them is the spec's "missing or short field".
\<close>

definition Vec2pose :: "double list \<Rightarrow> int \<Rightarrow> int \<Rightarrow> error + Pose3" where
  "Vec2pose vec n_rows n_cols =
     (if n_rows < 3 \<or> n_cols < 4 \<or> int (length vec) < n_rows * n_cols
      then Inl UndefinedBehaviour
      else Inr \<lparr>rotation =
                  \<lparr>rows = 3, cols = 3,
                   data = concat (map (\<lambda>r. map (\<lambda>c. vec ! (r * nat n_cols + c)) [0, 1, 2])
                                      [0, 1, 2])\<rparr>,
                translation =
                  \<lparr>rows = 3, cols = 1,
                   data = map (\<lambda>r. vec ! (r * nat n_cols + 3)) [0, 1, 2]\<rparr>\<rparr>)"

text \<open>
  The loop \<^verbatim>\<open>for k: distortion_coeff_.at<double>(0, k) = coeff[k]\<close> over the given
  indices: \<^verbatim>\<open>coeff[k]\<close> past the end of the vector is undefined.
\<close>

fun fill_row :: "Mat \<Rightarrow> double list \<Rightarrow> nat list \<Rightarrow> error + Mat" where
  "fill_row M coeff [] = Inr M"
| "fill_row M coeff (k # ks) =
     (if k < length coeff then fill_row (mat_set M 0 k (coeff ! k)) coeff ks
      else Inl UndefinedBehaviour)"

text \<open>"Convert intrinsics to OpenCV Format": the identity with four entries overwritten.
  Both parsers call it on a vector of at least four entries.\<close>

definition intrinsics_to_camera_matrix :: "double list \<Rightarrow> Mat" where
  "intrinsics_to_camera_matrix intr =
     mat_set (mat_set (mat_set (mat_set (Mat_eye 3 3) 0 0 (intr ! 0)) 1 1 (intr ! 1))
                0 2 (intr ! 2)) 1 2 (intr ! 3)"

text \<open>
  \<^verbatim>\<open>parseYAML\<close>, on the object \<open>this\<close>. The result is the returned boolean and the
  object as the call leaves it.
\<close>

definition parseYAML ::
  "(string \<Rightarrow> FileStorage option) \<Rightarrow> string \<Rightarrow> CameraParams \<Rightarrow> error + (bool \<times> CameraParams)"
  where
  "parseYAML files filepath this =
     (case safeOpenCVFileStorage files filepath of
        Inl e \<Rightarrow> Inl e
      | Inr fs \<Rightarrow>
          (let intr = node_intrinsics fs;
               distortion_coeff4 = node_distortion_coefficients fs
           in case fill_row (Mat_zeros 1 5) distortion_coeff4 [0, 1, 2, 3] of
                Inl e \<Rightarrow> Inl e
              | Inr coeffs \<Rightarrow>
                  (let resolution = node_resolution fs in
                   if length resolution < 2 then Inl UndefinedBehaviour
                   else
                     (let sz = (resolution ! 0, resolution ! 1);
                          rate = node_rate_hz fs;
                          period = ddiv (Finite 1) (double_of_int rate)
                      in case Vec2pose (node_T_BS_data fs) (node_T_BS_rows fs)
                                (node_T_BS_cols fs) of
                           Inl e \<Rightarrow> Inl e
                         | Inr pose \<Rightarrow>
                             if length intr < 4 then Inl UndefinedBehaviour
                             else
                               Inr (True,
                                    this\<lparr>intrinsics := intr,
                                         distortion_coeff := coeffs,
                                         image_size := sz,
                                         frame_rate := period,
                                         body_Pose_cam := pose,
                                         camera_matrix := intrinsics_to_camera_matrix intr,
                                         calibration :=
                                           make_Cal3DS2 (intr ! 0) (intr ! 1) (Finite 0)
                                             (intr ! 2) (intr ! 3)
                                             (distortion_coeff4 ! 0) (distortion_coeff4 ! 1)
                                             (distortion_coeff4 ! 2) (distortion_coeff4 ! 3)\<rparr>)))))"

section \<open>The legacy text parser\<close>

subsection \<open>Streams\<close>

text \<open>
  The file is a string. \<^verbatim>\<open>getline\<close> takes the characters up to the next newline;
  when it meets the end of the file instead, \<^verbatim>\<open>eof()\<close> holds and the read loop
  ends after this line. \<open>getlines\<close> is the sequence of lines the loop sees.
\<close>

definition newline :: char where
  "newline = CHR 0x0A"

function getlines :: "string \<Rightarrow> string list" where
  "getlines s =
     (let line = takeWhile (\<lambda>c. c \<noteq> newline) s
      in case dropWhile (\<lambda>c. c \<noteq> newline) s of
           [] \<Rightarrow> [line]
         | c # rest \<Rightarrow> line # getlines rest)"
  by pat_completeness auto
termination
proof (relation "measure length")
  fix s :: string and line c rest
  assume "dropWhile (\<lambda>c. c \<noteq> newline) s = c # rest"
  then have "length (c # rest) \<le> length s"
    using length_dropWhile_le [of "\<lambda>c. c \<noteq> newline" s] by simp
  then show "(rest, s) \<in> measure length" by simp
qed simp

declare getlines.simps [simp del]

text \<open>\<^verbatim>\<open>isspace\<close> in the C locale.\<close>

definition isspace :: "char \<Rightarrow> bool" where
  "isspace c = (c \<in> set [CHR '' '', CHR 0x09, CHR 0x0A, CHR 0x0B, CHR 0x0C, CHR 0x0D])"

text \<open>
  \<^verbatim>\<open>ss >> label\<close>: skips white space, then takes the characters up to the next white
  space. The result is the label and what is left of the stream.
\<close>

definition read_label :: "string \<Rightarrow> string \<times> string" where
  "read_label line =
     (takeWhile (\<lambda>c. \<not> isspace c) (dropWhile isspace line),
      dropWhile (\<lambda>c. \<not> isspace c) (dropWhile isspace line))"

text \<open>
  \<^verbatim>\<open>ss >> value\<close> for a double is the standard library's; how it reads a number is a
  parameter of the model. On a stream it reads a number from, a reader gives the value
  and one less than the number of characters it consumes, so that a successful extraction
  always consumes something. The values are finite (the library reads no infinity and
  no NaN).
\<close>

type_synonym reader = "string \<Rightarrow> (real \<times> nat) option"

text \<open>
  One extraction from a stream in good state: with nothing but white space left, the
  stream is at its end; otherwise the next field is read as a number, or is none.
\<close>

datatype extraction = Extracted real string | Garbled | At_end

definition read_double :: "reader \<Rightarrow> string \<Rightarrow> extraction" where
  "read_double rd ss =
     (if dropWhile isspace ss = [] then At_end
      else case rd ss of None \<Rightarrow> Garbled | Some (v, n) \<Rightarrow> Extracted v (drop (Suc n) ss))"

text \<open>\<^verbatim>\<open>while (ss >> value) vec.push_back(value)\<close>: the values pushed.\<close>

function read_all :: "reader \<Rightarrow> string \<Rightarrow> real list" where
  "read_all rd ss =
     (case read_double rd ss of
        Extracted v ss' \<Rightarrow> v # read_all rd ss'
      | Garbled \<Rightarrow> []
      | At_end \<Rightarrow> [])"
  by pat_completeness auto
termination
proof (relation "measure (\<lambda>(rd, ss). length ss)")
  fix rd :: reader and ss v ss'
  assume "read_double rd ss = Extracted v ss'"
  then obtain n where left: "dropWhile isspace ss \<noteq> []" and ss': "ss' = drop (Suc n) ss"
    by (auto simp: read_double_def split: if_splits option.splits)
  from left have "ss \<noteq> []" by auto
  with ss' show "((rd, ss'), (rd, ss)) \<in> measure (\<lambda>(rd, ss). length ss)" by simp
qed simp

declare read_all.simps [simp del]

text \<open>
  \<^verbatim>\<open>ss >> value\<close> where the stream may have failed before (\<open>None\<close>) and the variable
  may not have been set yet (\<open>None\<close>). A failed stream stays failed and leaves the
  variable alone; so does a stream at its end, which fails. A field that is no number
  fails the stream and stores 0 (the rule since C++11). The result is the stream and the
  variable after the extraction.
\<close>

definition extract_value ::
  "reader \<Rightarrow> string option \<Rightarrow> real option \<Rightarrow> string option \<times> real option" where
  "extract_value rd stream val =
     (case stream of
        None \<Rightarrow> (None, val)
      | Some ss \<Rightarrow>
          (case read_double rd ss of
             Extracted v ss' \<Rightarrow> (Some ss', Some v)
           | Garbled \<Rightarrow> (None, Some 0)
           | At_end \<Rightarrow> (None, val)))"

subsection \<open>One record of the file\<close>

text \<open>
  \<^verbatim>\<open>cv::Size(width, height)\<close> on two doubles converts each to \<^verbatim>\<open>int\<close>: towards
  zero, and undefined when the result is no 32-bit integer.
\<close>

definition double_to_int :: "real \<Rightarrow> error + int" where
  "double_to_int x =
     (if x \<le> - 2147483649 \<or> 2147483648 \<le> x then Inl UndefinedBehaviour
      else Inr (if 0 \<le> x then \<lfloor>x\<rfloor> else \<lceil>x\<rceil>))"

definition cv_Size :: "real \<Rightarrow> real \<Rightarrow> error + (int \<times> int)" where
  "cv_Size width height =
     (case double_to_int width of
        Inl e \<Rightarrow> Inl e
      | Inr w \<Rightarrow> (case double_to_int height of Inl e \<Rightarrow> Inl e | Inr h \<Rightarrow> Inr (w, h)))"

text \<open>
  What the read loop of \<^verbatim>\<open>parseKITTICalib\<close> changes: the object, and the locals
  \<^verbatim>\<open>cvR\<close>, \<^verbatim>\<open>cvT\<close> and \<^verbatim>\<open>distortion_coeff5_\<close>.
\<close>

record scan =
  obj :: CameraParams
  cvR :: Mat
  cvT :: Mat
  distortion_coeff5 :: "double list"

text \<open>
  The \<open>S\<close> record: \<^verbatim>\<open>double width, height; ss >> width >> height\<close>, then the size is
  made of both. A variable that no extraction has set is read uninitialised.
\<close>

definition read_S :: "reader \<Rightarrow> string \<Rightarrow> error + (int \<times> int)" where
  "read_S rd ss =
     (case extract_value rd (Some ss) None of
        (stream1, width) \<Rightarrow>
          (case extract_value rd stream1 None of
             (stream2, height) \<Rightarrow>
               (case width of
                  None \<Rightarrow> Inl UndefinedBehaviour
                | Some w \<Rightarrow>
                    (case height of
                       None \<Rightarrow> Inl UndefinedBehaviour
                     | Some h \<Rightarrow> cv_Size w h))))"

text \<open>
  The loops of the \<open>R\<close> and \<open>T\<close> records, over the given indices:
  \<^verbatim>\<open>double value; for (...) { ss >> value; M.at<double>(...) = value; }\<close>. After a failed
  extraction the variable still holds what the last one stored; it is read uninitialised
  when none has stored anything.
\<close>

fun read_R ::
  "reader \<Rightarrow> string option \<Rightarrow> real option \<Rightarrow> Mat \<Rightarrow> nat list \<Rightarrow> error + Mat" where
  "read_R rd stream val M [] = Inr M"
| "read_R rd stream val M (i # idxs) =
     (case snd (extract_value rd stream val) of
        None \<Rightarrow> Inl UndefinedBehaviour
      | Some v \<Rightarrow>
          read_R rd (fst (extract_value rd stream val)) (Some v)
            (mat_set M (i div 3) (i mod 3) (Finite v)) idxs)"

fun read_T ::
  "reader \<Rightarrow> string option \<Rightarrow> real option \<Rightarrow> Mat \<Rightarrow> nat list \<Rightarrow> error + Mat" where
  "read_T rd stream val M [] = Inr M"
| "read_T rd stream val M (i # idxs) =
     (case snd (extract_value rd stream val) of
        None \<Rightarrow> Inl UndefinedBehaviour
      | Some v \<Rightarrow>
          read_T rd (fst (extract_value rd stream val)) (Some v)
            (mat_set M i 0 (Finite v)) idxs)"

definition label_of :: "string \<Rightarrow> string \<Rightarrow> string" where
  "label_of prefix cam_id = prefix @ cam_id @ '':''"

text \<open>The five labels the read loop compares a line's label with.\<close>

definition recognized :: "string \<Rightarrow> string \<Rightarrow> bool" where
  "recognized cam_id label =
     (label = label_of ''S_'' cam_id \<or> label = label_of ''K_'' cam_id \<or>
      label = label_of ''D_'' cam_id \<or> label = label_of ''R_'' cam_id \<or>
      label = label_of ''T_'' cam_id)"

text \<open>The body of the read loop for one line.\<close>

definition process_line :: "reader \<Rightarrow> string \<Rightarrow> string \<Rightarrow> scan \<Rightarrow> error + scan" where
  "process_line rd cam_id line st =
     (if line = [] then Inr st
      else
        (let label = fst (read_label line); ss = snd (read_label line) in
         if label = label_of ''S_'' cam_id then
           (case read_S rd ss of
              Inl e \<Rightarrow> Inl e
            | Inr sz \<Rightarrow> Inr (st\<lparr>obj := (obj st)\<lparr>image_size := sz\<rparr>\<rparr>))
         else if label = label_of ''K_'' cam_id then
           (let K_vector = read_all rd ss in
            if length K_vector < 6 then Inl UndefinedBehaviour
            else
              (let intr = [Finite (K_vector ! 0), Finite (K_vector ! 4),
                           Finite (K_vector ! 2), Finite (K_vector ! 5)]
               in Inr (st\<lparr>obj := (obj st)\<lparr>intrinsics := intr,
                                            camera_matrix := intrinsics_to_camera_matrix intr\<rparr>\<rparr>)))
         else if label = label_of ''D_'' cam_id then
           (let coeff5 = distortion_coeff5 st @ map Finite (read_all rd ss) in
            case fill_row (Mat_zeros 1 5) coeff5 [0, 1, 2, 3, 4] of
              Inl e \<Rightarrow> Inl e
            | Inr coeffs \<Rightarrow>
                Inr (st\<lparr>obj := (obj st)\<lparr>distortion_coeff := coeffs\<rparr>,
                        distortion_coeff5 := coeff5\<rparr>))
         else if label = label_of ''R_'' cam_id then
           (case read_R rd (Some ss) None (cvR st) [0, 1, 2, 3, 4, 5, 6, 7, 8] of
              Inl e \<Rightarrow> Inl e
            | Inr M \<Rightarrow> Inr (st\<lparr>cvR := M\<rparr>))
         else if label = label_of ''T_'' cam_id then
           (case read_T rd (Some ss) None (cvT st) [0, 1, 2] of
              Inl e \<Rightarrow> Inl e
            | Inr M \<Rightarrow> Inr (st\<lparr>cvT := M\<rparr>))
         else Inr st))"

subsection \<open>The whole parse\<close>

fun scan_lines :: "reader \<Rightarrow> string \<Rightarrow> string list \<Rightarrow> scan \<Rightarrow> error + scan" where
  "scan_lines rd cam_id [] st = Inr st"
| "scan_lines rd cam_id (line # rest) st =
     (case process_line rd cam_id line st of
        Inl e \<Rightarrow> Inl e
      | Inr st' \<Rightarrow> scan_lines rd cam_id rest st')"

text \<open>
  The state when the read loop starts: the frame rate is set to \<^verbatim>\<open>1 / 10.0\<close>,
  \<^verbatim>\<open>cvR\<close> and \<^verbatim>\<open>cvT\<close> are zero matrices, \<^verbatim>\<open>distortion_coeff5_\<close> is empty.
\<close>

definition loop_start :: "CameraParams \<Rightarrow> scan" where
  "loop_start this =
     \<lparr>obj = this\<lparr>frame_rate := ddiv (Finite 1) (Finite 10)\<rparr>,
      cvR = Mat_zeros 3 3, cvT = Mat_zeros 3 1, distortion_coeff5 = []\<rparr>"

text \<open>
  The part of \<^verbatim>\<open>parseKITTICalib\<close> up to the end of the read loop: the file is opened
  under \<^verbatim>\<open>CHECK\<close>, then the loop runs over its lines.
\<close>

definition read_loop ::
  "reader \<Rightarrow> (string \<Rightarrow> string option) \<Rightarrow> string \<Rightarrow> string \<Rightarrow> CameraParams \<Rightarrow> error + scan"
  where
  "read_loop rd files filepath cam_id this =
     (case files filepath of
        None \<Rightarrow> Inl Abort
      | Some calib_file \<Rightarrow> scan_lines rd cam_id (getlines calib_file) (loop_start this))"

text \<open>
  Modelled from the spec: \<^verbatim>\<open>UtilsOpenCV::Cvmats2pose\<close> is not part of the source. The
  pose is made of the composed rotation and the composed translation.
\<close>

definition Cvmats2pose :: "Mat \<Rightarrow> Mat \<Rightarrow> Pose3" where
  "Cvmats2pose R T = \<lparr>rotation = R, translation = T\<rparr>"

text \<open>
  The part of \<^verbatim>\<open>parseKITTICalib\<close> after the read loop: the pose is composed from the
  caller's rotation and translation and the parsed ones, and the calibration is built.
\<close>

definition after_loop :: "Mat \<Rightarrow> Mat \<Rightarrow> scan \<Rightarrow> error + (bool \<times> CameraParams)" where
  "after_loop R_cam_to_imu T_cam_to_imu st =
     (case mat_mul R_cam_to_imu (cvR st) of
        Inl e \<Rightarrow> Inl e
      | Inr R \<Rightarrow>
          (case mat_add T_cam_to_imu (cvT st) of
             Inl e \<Rightarrow> Inl e
           | Inr T \<Rightarrow>
               (let intr = intrinsics (obj st); coeff5 = distortion_coeff5 st in
                if length intr < 4 \<or> length coeff5 < 4 then Inl UndefinedBehaviour
                else
                  Inr (True,
                       (obj st)\<lparr>body_Pose_cam := Cvmats2pose R T,
                                calibration :=
                                  make_Cal3DS2 (intr ! 0) (intr ! 1) (Finite 0)
                                    (intr ! 2) (intr ! 3)
                                    (coeff5 ! 0) (coeff5 ! 1) (coeff5 ! 2) (coeff5 ! 3)\<rparr>))))"

text \<open>
  \<^verbatim>\<open>parseKITTICalib\<close>, on the object \<open>this\<close>, with the reader \<open>rd\<close> for the numbers of
  the file. The result is the returned boolean and the object as the call leaves it.
\<close>

definition parseKITTICalib ::
  "reader \<Rightarrow> (string \<Rightarrow> string option) \<Rightarrow> string \<Rightarrow> Mat \<Rightarrow> Mat \<Rightarrow> string \<Rightarrow> CameraParams
     \<Rightarrow> error + (bool \<times> CameraParams)" where
  "parseKITTICalib rd files filepath R_cam_to_imu T_cam_to_imu cam_id this =
     (case read_loop rd files filepath cam_id this of
        Inl e \<Rightarrow> Inl e
      | Inr st \<Rightarrow> after_loop R_cam_to_imu T_cam_to_imu st)"

section \<open>Inputs for the examples\<close>

text \<open>
  Modelled from the spec: \<^verbatim>\<open>CameraParams.h\<close> is not part of the source. An object is
  "constructed empty": no intrinsics, empty matrices, a zero image size, the identity
  pose.
\<close>

definition empty_CameraParams :: CameraParams where
  "empty_CameraParams =
     \<lparr>intrinsics = [],
      body_Pose_cam = \<lparr>rotation = Mat_eye 3 3, translation = Mat_zeros 3 1\<rparr>,
      frame_rate = Finite 0,
      image_size = (0, 0),
      calibration =
        make_Cal3DS2 (Finite 1) (Finite 1) (Finite 0) (Finite 0) (Finite 0)
          (Finite 0) (Finite 0) (Finite 0) (Finite 0),
      camera_matrix = Mat_empty,
      distortion_coeff = Mat_empty,
      undistRect_map_x = Mat_empty,
      undistRect_map_y = Mat_empty,
      R_rectify = Mat_empty,
      P_proj = Mat_empty\<rparr>"

text \<open>Scenario 1 of the spec, a structured file.\<close>

definition scenario1 :: FileStorage where
  "scenario1 =
     \<lparr>node_intrinsics = [Finite 458.6, Finite 457.3, Finite 367.2, Finite 248.4],
      node_distortion_coefficients = [Finite (- 0.28), Finite 0.07, Finite 0.0002, Finite 0.00002],
      node_resolution = [752, 480],
      node_rate_hz = 20,
      node_T_BS_rows = 4,
      node_T_BS_cols = 4,
      node_T_BS_data =
        [Finite 1, Finite 0, Finite 0, Finite 0,
         Finite 0, Finite 1, Finite 0, Finite 0,
         Finite 0, Finite 0, Finite 1, Finite 0,
         Finite 0, Finite 0, Finite 0, Finite 1]\<rparr>"

text \<open>
  A reader for the examples: it skips white space and reads an unsigned decimal integer,
  as \<^verbatim>\<open>ss >> value\<close> does on such a field.
\<close>

definition is_digit :: "char \<Rightarrow> bool" where
  "is_digit c = (c \<in> set ''0123456789'')"

definition digit_value :: "char \<Rightarrow> nat" where
  "digit_value c = of_char c - 48"

definition decimal_reader :: reader where
  "decimal_reader ss =
     (let ws = takeWhile isspace ss;
          ds = takeWhile is_digit (dropWhile isspace ss)
      in if ds = [] then None
         else Some (real (foldl (\<lambda>n c. 10 * n + digit_value c) 0 ds),
                    length ws + length ds - 1))"

text \<open>A text file made of the given lines, a newline between two of them.\<close>

fun join_lines :: "string list \<Rightarrow> string" where
  "join_lines [] = []"
| "join_lines [l] = l"
| "join_lines (l # l' # ls) = l @ newline # join_lines (l' # ls)"

text \<open>The model Scenario 1 parses to, from an empty object.\<close>

definition scenario1_model :: CameraParams where
  "scenario1_model =
     empty_CameraParams
       \<lparr>intrinsics := [Finite 458.6, Finite 457.3, Finite 367.2, Finite 248.4],
        body_Pose_cam := \<lparr>rotation = Mat_eye 3 3, translation = Mat_zeros 3 1\<rparr>,
        frame_rate := Finite 0.05,
        image_size := (752, 480),
        calibration :=
          make_Cal3DS2 (Finite 458.6) (Finite 457.3) (Finite 0) (Finite 367.2) (Finite 248.4)
            (Finite (- 0.28)) (Finite 0.07) (Finite 0.0002) (Finite 0.00002),
        camera_matrix :=
          \<lparr>rows = 3, cols = 3,
           data = [Finite 458.6, Finite 0, Finite 367.2, Finite 0, Finite 457.3, Finite 248.4,
                   Finite 0, Finite 0, Finite 1]\<rparr>,
        distortion_coeff :=
          \<lparr>rows = 1, cols = 5,
           data = [Finite (- 0.28), Finite 0.07, Finite 0.0002, Finite 0.00002, Finite 0]\<rparr>\<rparr>"

text \<open>The lines of a file without the records of one label.\<close>

definition without :: "string \<Rightarrow> string \<Rightarrow> string list \<Rightarrow> string list" where
  "without prefix cam_id ls = filter (\<lambda>l. fst (read_label l) \<noteq> label_of prefix cam_id) ls"

text \<open>
  Scenario 2 of the spec with integer fields; its \<open>K\<close> and \<open>D\<close> records alone; the file
  without its \<open>K\<close> record; and Scenario 3, with records of another camera.
\<close>

definition scenario2_lines :: "string list" where
  "scenario2_lines =
     [''S_0: 1242 375'',
      ''K_0: 721 0 609 0 721 172 0 0 1'',
      ''D_0: 1 2 3 4 5'',
      ''R_0: 0 1 0 1 0 0 0 0 1'',
      ''T_0: 7 8 9'']"

definition scenario2_K_D_lines :: "string list" where
  "scenario2_K_D_lines = [''K_0: 721 0 609 0 721 172 0 0 1'', ''D_0: 1 2 3 4 5'']"

definition scenario2_no_K_lines :: "string list" where
  "scenario2_no_K_lines =
     [''S_0: 1242 375'',
      ''D_0: 1 2 3 4 5'',
      ''R_0: 0 1 0 1 0 0 0 0 1'',
      ''T_0: 7 8 9'']"

definition scenario3_lines :: "string list" where
  "scenario3_lines =
     [''calib_time: 09-Jan-2012'',
      ''S_0: 1242 375'',
      ''S_1: 1 1'',
      ''K_0: 721 0 609 0 721 172 0 0 1'',
      ''K_1: 2 2 2 2 2 2 2 2 2'',
      ''D_0: 1 2 3 4 5'',
      ''R_0: 0 1 0 1 0 0 0 0 1'',
      ''R_1: 3 3 3 3 3 3 3 3 3'',
      ''T_0: 7 8 9'']"

text \<open>
  The model both files parse to, from an empty object, for camera \<open>0\<close>, with the identity
  for the caller's rotation and a zero translation.
\<close>

definition scenario2_model :: CameraParams where
  "scenario2_model =
     empty_CameraParams
       \<lparr>intrinsics := [Finite 721, Finite 721, Finite 609, Finite 172],
        body_Pose_cam :=
          \<lparr>rotation =
             \<lparr>rows = 3, cols = 3,
              data = [Finite 0, Finite 1, Finite 0, Finite 1, Finite 0, Finite 0,
                      Finite 0, Finite 0, Finite 1]\<rparr>,
           translation = \<lparr>rows = 3, cols = 1, data = [Finite 7, Finite 8, Finite 9]\<rparr>\<rparr>,
        frame_rate := Finite 0.1,
        image_size := (1242, 375),
        calibration :=
          make_Cal3DS2 (Finite 721) (Finite 721) (Finite 0) (Finite 609) (Finite 172)
            (Finite 1) (Finite 2) (Finite 3) (Finite 4),
        camera_matrix :=
          \<lparr>rows = 3, cols = 3,
           data = [Finite 721, Finite 0, Finite 609, Finite 0, Finite 721, Finite 172,
                   Finite 0, Finite 0, Finite 1]\<rparr>,
        distortion_coeff :=
          \<lparr>rows = 1, cols = 5,
           data = [Finite 1, Finite 2, Finite 3, Finite 4, Finite 5]\<rparr>\<rparr>"

section \<open>Basic facts\<close>

lemma Mat_eye_3_3:
  "Mat_eye 3 3 =
     \<lparr>rows = 3, cols = 3,
      data = [Finite 1, Finite 0, Finite 0, Finite 0, Finite 1, Finite 0,
              Finite 0, Finite 0, Finite 1]\<rparr>"
  by (simp add: Mat_eye_def numeral_3_eq_3)

lemma Mat_zeros_3_3:
  "Mat_zeros 3 3 =
     \<lparr>rows = 3, cols = 3,
      data = [Finite 0, Finite 0, Finite 0, Finite 0, Finite 0, Finite 0,
              Finite 0, Finite 0, Finite 0]\<rparr>"
  by (simp add: Mat_zeros_def eval_nat_numeral)

lemma Mat_zeros_3_1:
  "Mat_zeros 3 1 = \<lparr>rows = 3, cols = 1, data = [Finite 0, Finite 0, Finite 0]\<rparr>"
  "Mat_zeros 3 (Suc 0) = \<lparr>rows = 3, cols = 1, data = [Finite 0, Finite 0, Finite 0]\<rparr>"
  by (simp_all add: Mat_zeros_def eval_nat_numeral)

lemma Mat_zeros_1_5:
  "Mat_zeros 1 5 =
     \<lparr>rows = 1, cols = 5, data = [Finite 0, Finite 0, Finite 0, Finite 0, Finite 0]\<rparr>"
  "Mat_zeros (Suc 0) 5 =
     \<lparr>rows = 1, cols = 5, data = [Finite 0, Finite 0, Finite 0, Finite 0, Finite 0]\<rparr>"
  by (simp_all add: Mat_zeros_def eval_nat_numeral)

lemma dless_trans: "dless a b \<Longrightarrow> dless b c \<Longrightarrow> dless a c"
  by (cases a; cases b; cases c) auto

lemma dless_fabs_zero: "\<not> dless (fabs d) (Finite 0)"
  by (cases d) auto

lemma fill_row_4:
  "fill_row (Mat_zeros 1 5) d [0, 1, 2, 3] =
     (if length d < 4 then Inl UndefinedBehaviour
      else Inr \<lparr>rows = 1, cols = 5, data = [d ! 0, d ! 1, d ! 2, d ! 3, Finite 0]\<rparr>)"
  by (auto simp: Mat_zeros_1_5 mat_set_def)

lemma fill_row_5:
  "fill_row (Mat_zeros 1 5) d [0, 1, 2, 3, 4] =
     (if length d < 5 then Inl UndefinedBehaviour
      else Inr \<lparr>rows = 1, cols = 5, data = [d ! 0, d ! 1, d ! 2, d ! 3, d ! 4]\<rparr>)"
  by (auto simp: Mat_zeros_1_5 mat_set_def)

lemma intrinsics_to_camera_matrix_data:
  "intrinsics_to_camera_matrix intr =
     \<lparr>rows = 3, cols = 3,
      data = [intr ! 0, Finite 0, intr ! 2, Finite 0, intr ! 1, intr ! 3,
              Finite 0, Finite 0, Finite 1]\<rparr>"
  by (simp add: intrinsics_to_camera_matrix_def Mat_eye_3_3 mat_set_def)

section \<open>Properties of the comparison\<close>

lemma within_tol_mono: "within_tol a b t \<Longrightarrow> dless t t' \<Longrightarrow> within_tol a b t'"
  unfolding within_tol_def dgreater_def using dless_trans by blast

lemma areIntrinsicEqual_mono:
  "areIntrinsicEqual xs ys t = Inr True \<Longrightarrow> dless t t' \<Longrightarrow>
   areIntrinsicEqual xs ys t' = Inr True"
proof (induction xs ys t rule: areIntrinsicEqual.induct)
  case (3 x xs y ys tol)
  from "3.prems"(1) have near: "\<not> dgreater (fabs (dsub x y)) tol"
    and rest: "areIntrinsicEqual xs ys tol = Inr True"
    by (auto split: if_splits)
  have "\<not> dgreater (fabs (dsub x y)) t'"
    using near "3.prems"(2) dless_trans unfolding dgreater_def by blast
  moreover have "areIntrinsicEqual xs ys t' = Inr True"
    using "3.IH" near rest "3.prems"(2) by simp
  ultimately show ?case by simp
qed simp_all

lemma areIntrinsicEqual_self: "\<exists>r. areIntrinsicEqual xs xs t = Inr r"
  by (induction xs) auto

lemma equal_with_abs_tol_mono:
  "equal_with_abs_tol A B t \<Longrightarrow> dless t t' \<Longrightarrow> equal_with_abs_tol A B t'"
  unfolding equal_with_abs_tol_def
  by (auto elim!: list_all2_mono intro: within_tol_mono)

lemma Pose3_equals_mono: "Pose3_equals p q t \<Longrightarrow> dless t t' \<Longrightarrow> Pose3_equals p q t'"
  unfolding Pose3_equals_def by (auto intro: equal_with_abs_tol_mono)

lemma Cal3DS2_equals_mono:
  "Cal3DS2_equals K L t \<Longrightarrow> dless t t' \<Longrightarrow> Cal3DS2_equals K L t'"
  unfolding Cal3DS2_equals_def by (auto intro: within_tol_mono)

lemma equals_example:
  "equals (empty_CameraParams\<lparr>intrinsics := [Finite 1]\<rparr>)
     (empty_CameraParams\<lparr>intrinsics := [Finite 1.5], frame_rate := Finite 0.25\<rparr>) (Finite 1)
   = Inr True"
  by (simp add: equals_def empty_CameraParams_def Pose3_equals_def equal_with_abs_tol_def
      within_tol_def dgreater_def dsub_def Cal3DS2_equals_def make_Cal3DS2_def CvMatCmp_def
      Mat_eye_3_3 Mat_zeros_3_1 Mat_empty_def)

text \<open>
  C5. The claim: for a parsed model \<open>m\<close>, \<open>equals m m\<close> at tolerance zero is true. The
  code answers false on every object: the intrinsics, the pose and the calibration accept
  a difference equal to the tolerance, but the frame rates must differ by strictly less
  than the tolerance, and the difference of a frame rate to itself is not below zero.
\<close>

theorem equals_self_zero_tolerance: "equals m m (Finite 0) = Inr False"
  using areIntrinsicEqual_self [of "intrinsics m" "Finite 0"]
  by (auto simp: equals_def dless_fabs_zero)

text \<open>
  C6. \<open>equals\<close> is monotonic in the tolerance: when it returns true at \<open>t\<close> and
  \<open>t' > t\<close>, it returns true at \<open>t'\<close>.
\<close>

theorem equals_tolerance_monotonic:
  assumes "equals a b t = Inr True" and "dgreater t' t"
  shows "equals a b t' = Inr True"
proof -
  from assms(2) have lt: "dless t t'" by (simp add: dgreater_def)
  from assms(1) obtain eq where eq: "areIntrinsicEqual (intrinsics a) (intrinsics b) t = Inr eq"
    by (auto simp: equals_def split: sum.splits)
  with assms(1) have all: "eq" "Pose3_equals (body_Pose_cam a) (body_Pose_cam b) t"
    "dless (fabs (dsub (frame_rate a) (frame_rate b))) t"
    "fst (image_size a) = fst (image_size b)" "snd (image_size a) = snd (image_size b)"
    "Cal3DS2_equals (calibration a) (calibration b) t"
    "CvMatCmp (camera_matrix a) (camera_matrix b)"
    "CvMatCmp (distortion_coeff a) (distortion_coeff b)"
    "CvMatCmp (undistRect_map_x a) (undistRect_map_x b)"
    "CvMatCmp (undistRect_map_y a) (undistRect_map_y b)"
    "CvMatCmp (R_rectify a) (R_rectify b)"
    "CvMatCmp (P_proj a) (P_proj b)"
    by (simp_all add: equals_def)
  have 1: "areIntrinsicEqual (intrinsics a) (intrinsics b) t' = Inr True"
    using areIntrinsicEqual_mono eq all(1) lt by simp
  have 2: "Pose3_equals (body_Pose_cam a) (body_Pose_cam b) t'"
    using Pose3_equals_mono all(2) lt by blast
  have 3: "dless (fabs (dsub (frame_rate a) (frame_rate b))) t'"
    using dless_trans all(3) lt by blast
  have 4: "Cal3DS2_equals (calibration a) (calibration b) t'"
    using Cal3DS2_equals_mono all(6) lt by blast
  show ?thesis
    using 1 2 3 4 all by (simp add: equals_def)
qed

theorem equals_tolerance_monotonic_witness:
  "equals (empty_CameraParams\<lparr>intrinsics := [Finite 1]\<rparr>)
     (empty_CameraParams\<lparr>intrinsics := [Finite 1.5], frame_rate := Finite 0.25\<rparr>) (Finite 1)
   = Inr True \<and>
   dgreater (Finite 2) (Finite 1) \<and>
   equals (empty_CameraParams\<lparr>intrinsics := [Finite 1]\<rparr>)
     (empty_CameraParams\<lparr>intrinsics := [Finite 1.5], frame_rate := Finite 0.25\<rparr>) (Finite 2)
   = Inr True"
proof -
  have bigger: "dgreater (Finite 2) (Finite 1)"
    by (simp add: dgreater_def)
  show ?thesis
    using equals_example bigger equals_tolerance_monotonic [OF equals_example bigger]
    by simp
qed

section \<open>Properties of the structured parser\<close>

text \<open>What a successful \<^verbatim>\<open>parseYAML\<close> has read and stored.\<close>

lemma parseYAML_Inr:
  assumes "parseYAML files filepath this = Inr (b, m)"
  obtains fs pose where
    "files filepath = Some fs"
    "4 \<le> length (node_distortion_coefficients fs)"
    "2 \<le> length (node_resolution fs)"
    "4 \<le> length (node_intrinsics fs)"
    "Vec2pose (node_T_BS_data fs) (node_T_BS_rows fs) (node_T_BS_cols fs) = Inr pose"
    "b = True"
    "m = this\<lparr>intrinsics := node_intrinsics fs,
              distortion_coeff :=
                \<lparr>rows = 1, cols = 5,
                 data = [node_distortion_coefficients fs ! 0, node_distortion_coefficients fs ! 1,
                         node_distortion_coefficients fs ! 2, node_distortion_coefficients fs ! 3,
                         Finite 0]\<rparr>,
              image_size := (node_resolution fs ! 0, node_resolution fs ! 1),
              frame_rate := ddiv (Finite 1) (double_of_int (node_rate_hz fs)),
              body_Pose_cam := pose,
              camera_matrix := intrinsics_to_camera_matrix (node_intrinsics fs),
              calibration :=
                make_Cal3DS2 (node_intrinsics fs ! 0) (node_intrinsics fs ! 1) (Finite 0)
                  (node_intrinsics fs ! 2) (node_intrinsics fs ! 3)
                  (node_distortion_coefficients fs ! 0) (node_distortion_coefficients fs ! 1)
                  (node_distortion_coefficients fs ! 2) (node_distortion_coefficients fs ! 3)\<rparr>"
  using assms unfolding parseYAML_def safeOpenCVFileStorage_def fill_row_4 Let_def
  by (auto split: option.splits sum.splits if_splits)

lemma parseYAML_scenario1:
  "parseYAML [''cam.yaml'' \<mapsto> scenario1] ''cam.yaml'' empty_CameraParams =
   Inr (True, scenario1_model)"
  by (simp add: parseYAML_def safeOpenCVFileStorage_def scenario1_def Mat_zeros_1_5 mat_set_def
      Vec2pose_def double_of_int_def intrinsics_to_camera_matrix_def Mat_eye_3_3 Mat_zeros_3_1
      empty_CameraParams_def scenario1_model_def)

text \<open>
  C2, as the spec has it: a zero \<^verbatim>\<open>rate_hz\<close> is rejected and the frame rate is never an
  infinity. The code divides without a guard. On Scenario 1 with \<^verbatim>\<open>rate_hz\<close> set to 0 the
  parse is accepted, returns true, and leaves the frame rate at plus infinity.
\<close>

theorem parseYAML_zero_rate_accepted:
  "\<not> isl (parseYAML [''cam.yaml'' \<mapsto> scenario1\<lparr>node_rate_hz := 0\<rparr>] ''cam.yaml''
            empty_CameraParams) \<and>
   fst (projr (parseYAML [''cam.yaml'' \<mapsto> scenario1\<lparr>node_rate_hz := 0\<rparr>] ''cam.yaml''
                 empty_CameraParams)) = True \<and>
   frame_rate (snd (projr (parseYAML [''cam.yaml'' \<mapsto> scenario1\<lparr>node_rate_hz := 0\<rparr>]
                             ''cam.yaml'' empty_CameraParams))) = PlusInf"
  by (simp add: parseYAML_def safeOpenCVFileStorage_def scenario1_def Mat_zeros_1_5 mat_set_def
      Vec2pose_def double_of_int_def Let_def)

text \<open>
  C2, amended: \<^verbatim>\<open>parseYAML\<close> stores \<^verbatim>\<open>1 / double(rate)\<close> with no guard on the rate.
  When a file parses, the frame rate is that quotient, which is \<open>1 / rate_hz\<close> for a
  nonzero rate; and the same file with \<^verbatim>\<open>rate_hz\<close> set to 0 parses too, returns true,
  and differs only in the frame rate, which is plus infinity.
\<close>

theorem parseYAML_rate_unguarded:
  assumes "parseYAML (files(filepath \<mapsto> fs)) filepath this = Inr (b, m)"
  shows "frame_rate m = ddiv (Finite 1) (double_of_int (node_rate_hz fs)) \<and>
         (node_rate_hz fs \<noteq> 0 \<longrightarrow> frame_rate m = Finite (1 / of_int (node_rate_hz fs))) \<and>
         parseYAML (files(filepath \<mapsto> fs\<lparr>node_rate_hz := 0\<rparr>)) filepath this =
           Inr (True, m\<lparr>frame_rate := PlusInf\<rparr>)"
  using assms unfolding parseYAML_def safeOpenCVFileStorage_def fill_row_4 Let_def
  by (auto simp: double_of_int_def split: option.splits sum.splits if_splits)

theorem parseYAML_rate_unguarded_witness:
  "parseYAML [''cam.yaml'' \<mapsto> scenario1] ''cam.yaml'' empty_CameraParams =
     Inr (True, scenario1_model) \<and>
   node_rate_hz scenario1 \<noteq> 0 \<and>
   frame_rate scenario1_model = Finite (1 / 20) \<and>
   parseYAML [''cam.yaml'' \<mapsto> scenario1\<lparr>node_rate_hz := 0\<rparr>] ''cam.yaml'' empty_CameraParams =
     Inr (True, scenario1_model\<lparr>frame_rate := PlusInf\<rparr>)"
proof -
  have ok: "parseYAML (Map.empty(''cam.yaml'' \<mapsto> scenario1)) ''cam.yaml'' empty_CameraParams =
     Inr (True, scenario1_model)"
    by (rule parseYAML_scenario1)
  have rate: "node_rate_hz scenario1 = 20"
    by (simp add: scenario1_def)
  show ?thesis
    using ok rate parseYAML_rate_unguarded [OF ok] by (simp add: double_of_int_def)
qed

text \<open>
  C4. A structured file with the four distortion coefficients \<open>k1, k2, p1, p2\<close> parses to
  a 1x5 sequence of distortion coefficients: the four, in order, and a fifth entry that
  is exactly 0.
\<close>

theorem parseYAML_distortion_padding:
  assumes "parseYAML files filepath this = Inr (b, m)"
    and "files filepath = Some fs"
    and "node_distortion_coefficients fs = [k1, k2, p1, p2]"
  shows "distortion_coeff m = \<lparr>rows = 1, cols = 5, data = [k1, k2, p1, p2, Finite 0]\<rparr> \<and>
         mat_at (distortion_coeff m) 0 4 = Finite 0"
  using assms by (auto elim!: parseYAML_Inr simp: mat_at_def)

theorem parseYAML_distortion_padding_witness:
  "parseYAML [''cam.yaml'' \<mapsto> scenario1] ''cam.yaml'' empty_CameraParams =
     Inr (True, scenario1_model) \<and>
   [''cam.yaml'' \<mapsto> scenario1] ''cam.yaml'' = Some scenario1 \<and>
   node_distortion_coefficients scenario1 =
     [Finite (- 0.28), Finite 0.07, Finite 0.0002, Finite 0.00002] \<and>
   distortion_coeff scenario1_model =
     \<lparr>rows = 1, cols = 5,
      data = [Finite (- 0.28), Finite 0.07, Finite 0.0002, Finite 0.00002, Finite 0]\<rparr> \<and>
   mat_at (distortion_coeff scenario1_model) 0 4 = Finite 0"
proof -
  have opened: "[''cam.yaml'' \<mapsto> scenario1] ''cam.yaml'' = Some scenario1"
    by simp
  have coeffs: "node_distortion_coefficients scenario1 =
     [Finite (- 0.28), Finite 0.07, Finite 0.0002, Finite 0.00002]"
    by (simp add: scenario1_def)
  from parseYAML_distortion_padding [OF parseYAML_scenario1 opened coeffs]
  have padded: "distortion_coeff scenario1_model =
     \<lparr>rows = 1, cols = 5,
      data = [Finite (- 0.28), Finite 0.07, Finite 0.0002, Finite 0.00002, Finite 0]\<rparr> \<and>
     mat_at (distortion_coeff scenario1_model) 0 4 = Finite 0" .
  from parseYAML_scenario1 opened coeffs padded show ?thesis
    by blast
qed

section \<open>Properties of the legacy text parser\<close>

subsection \<open>The loop body, branch by branch\<close>

lemma label_of_distinct:
  "label_of ''S_'' c \<noteq> label_of ''K_'' c" "label_of ''S_'' c \<noteq> label_of ''D_'' c"
  "label_of ''S_'' c \<noteq> label_of ''R_'' c" "label_of ''S_'' c \<noteq> label_of ''T_'' c"
  "label_of ''K_'' c \<noteq> label_of ''D_'' c" "label_of ''K_'' c \<noteq> label_of ''R_'' c"
  "label_of ''K_'' c \<noteq> label_of ''T_'' c" "label_of ''D_'' c \<noteq> label_of ''R_'' c"
  "label_of ''D_'' c \<noteq> label_of ''T_'' c" "label_of ''R_'' c \<noteq> label_of ''T_'' c"
  by (simp_all add: label_of_def)

lemma read_label_empty: "fst (read_label []) = []"
  by (simp add: read_label_def)

lemma label_of_nonempty: "label_of p c \<noteq> []"
  by (simp add: label_of_def)

text \<open>The branches of the loop body, one equation each.\<close>

lemma process_line_blank: "process_line rd cam_id [] st = Inr st"
  by (simp add: process_line_def)

lemma process_line_S:
  "fst (read_label line) = label_of ''S_'' cam_id \<Longrightarrow>
   process_line rd cam_id line st =
     (case read_S rd (snd (read_label line)) of
        Inl e \<Rightarrow> Inl e
      | Inr sz \<Rightarrow> Inr (st\<lparr>obj := (obj st)\<lparr>image_size := sz\<rparr>\<rparr>))"
  using read_label_empty label_of_nonempty [of "''S_''" cam_id]
  by (auto simp: process_line_def Let_def)

lemma process_line_K:
  "fst (read_label line) = label_of ''K_'' cam_id \<Longrightarrow>
   process_line rd cam_id line st =
     (let K_vector = read_all rd (snd (read_label line)) in
      if length K_vector < 6 then Inl UndefinedBehaviour
      else Inr (st\<lparr>obj := (obj st)
                  \<lparr>intrinsics := [Finite (K_vector ! 0), Finite (K_vector ! 4),
                                  Finite (K_vector ! 2), Finite (K_vector ! 5)],
                   camera_matrix := intrinsics_to_camera_matrix
                     [Finite (K_vector ! 0), Finite (K_vector ! 4),
                      Finite (K_vector ! 2), Finite (K_vector ! 5)]\<rparr>\<rparr>))"
  using read_label_empty label_of_nonempty [of "''K_''" cam_id] label_of_distinct [of cam_id]
  by (auto simp: process_line_def Let_def)

lemma process_line_D:
  "fst (read_label line) = label_of ''D_'' cam_id \<Longrightarrow>
   process_line rd cam_id line st =
     (let coeff5 = distortion_coeff5 st @ map Finite (read_all rd (snd (read_label line))) in
      if length coeff5 < 5 then Inl UndefinedBehaviour
      else Inr (st\<lparr>obj := (obj st)
                  \<lparr>distortion_coeff :=
                     \<lparr>rows = 1, cols = 5,
                      data = [coeff5 ! 0, coeff5 ! 1, coeff5 ! 2, coeff5 ! 3, coeff5 ! 4]\<rparr>\<rparr>,
                 distortion_coeff5 := coeff5\<rparr>))"
  using read_label_empty label_of_nonempty [of "''D_''" cam_id] label_of_distinct [of cam_id]
  unfolding process_line_def fill_row_5 Let_def
  by auto

lemma process_line_R:
  "fst (read_label line) = label_of ''R_'' cam_id \<Longrightarrow>
   process_line rd cam_id line st =
     (case read_R rd (Some (snd (read_label line))) None (cvR st) [0, 1, 2, 3, 4, 5, 6, 7, 8] of
        Inl e \<Rightarrow> Inl e
      | Inr M \<Rightarrow> Inr (st\<lparr>cvR := M\<rparr>))"
  using read_label_empty label_of_nonempty [of "''R_''" cam_id] label_of_distinct [of cam_id]
  unfolding process_line_def Let_def
  by auto

lemma process_line_T:
  "fst (read_label line) = label_of ''T_'' cam_id \<Longrightarrow>
   process_line rd cam_id line st =
     (case read_T rd (Some (snd (read_label line))) None (cvT st) [0, 1, 2] of
        Inl e \<Rightarrow> Inl e
      | Inr M \<Rightarrow> Inr (st\<lparr>cvT := M\<rparr>))"
  using read_label_empty label_of_nonempty [of "''T_''" cam_id] label_of_distinct [of cam_id]
  unfolding process_line_def Let_def
  by auto

lemma process_line_other:
  "\<not> recognized cam_id (fst (read_label line)) \<Longrightarrow> process_line rd cam_id line st = Inr st"
  by (simp add: process_line_def recognized_def Let_def)

lemma process_line_cases [consumes 1, case_names S K D R T other]:
  assumes "process_line rd cam_id line st = Inr st'"
  obtains
    sz where "fst (read_label line) = label_of ''S_'' cam_id"
      "st' = st\<lparr>obj := (obj st)\<lparr>image_size := sz\<rparr>\<rparr>"
  | K_vector where "fst (read_label line) = label_of ''K_'' cam_id"
      "K_vector = read_all rd (snd (read_label line))" "6 \<le> length K_vector"
      "st' = st\<lparr>obj := (obj st)
                \<lparr>intrinsics := [Finite (K_vector ! 0), Finite (K_vector ! 4),
                                Finite (K_vector ! 2), Finite (K_vector ! 5)],
                 camera_matrix := intrinsics_to_camera_matrix
                   [Finite (K_vector ! 0), Finite (K_vector ! 4),
                    Finite (K_vector ! 2), Finite (K_vector ! 5)]\<rparr>\<rparr>"
  | coeff5 where "fst (read_label line) = label_of ''D_'' cam_id"
      "coeff5 = distortion_coeff5 st @ map Finite (read_all rd (snd (read_label line)))"
      "5 \<le> length coeff5"
      "st' = st\<lparr>obj := (obj st)
                \<lparr>distortion_coeff :=
                   \<lparr>rows = 1, cols = 5,
                    data = [coeff5 ! 0, coeff5 ! 1, coeff5 ! 2, coeff5 ! 3, coeff5 ! 4]\<rparr>\<rparr>,
               distortion_coeff5 := coeff5\<rparr>"
  | M where "fst (read_label line) = label_of ''R_'' cam_id"
      "read_R rd (Some (snd (read_label line))) None (cvR st) [0, 1, 2, 3, 4, 5, 6, 7, 8] = Inr M"
      "st' = st\<lparr>cvR := M\<rparr>"
  | M where "fst (read_label line) = label_of ''T_'' cam_id"
      "read_T rd (Some (snd (read_label line))) None (cvT st) [0, 1, 2] = Inr M"
      "st' = st\<lparr>cvT := M\<rparr>"
  | "\<not> recognized cam_id (fst (read_label line))" "st' = st"
proof (cases "recognized cam_id (fst (read_label line))")
  case False
  with assms that(6) show ?thesis
    by (simp add: process_line_other)
next
  case True
  then consider
      "fst (read_label line) = label_of ''S_'' cam_id"
    | "fst (read_label line) = label_of ''K_'' cam_id"
    | "fst (read_label line) = label_of ''D_'' cam_id"
    | "fst (read_label line) = label_of ''R_'' cam_id"
    | "fst (read_label line) = label_of ''T_'' cam_id"
    by (auto simp: recognized_def)
  then show ?thesis
  proof cases
    case 1
    with assms that(1) show ?thesis
      by (auto simp: process_line_S split: sum.splits)
  next
    case 2
    with assms that(2) show ?thesis
      by (auto simp: process_line_K Let_def split: if_splits)
  next
    case 3
    with assms that(3) show ?thesis
      by (auto simp: process_line_D Let_def split: if_splits)
  next
    case 4
    with assms that(4) show ?thesis
      by (auto simp: process_line_R split: sum.splits)
  next
    case 5
    with assms that(5) show ?thesis
      by (auto simp: process_line_T split: sum.splits)
  qed
qed

text \<open>What a record with another label leaves alone.\<close>

lemma process_line_frame:
  assumes "process_line rd cam_id line st = Inr st'"
  shows "fst (read_label line) \<noteq> label_of ''S_'' cam_id \<Longrightarrow>
           image_size (obj st') = image_size (obj st)"
    and "fst (read_label line) \<noteq> label_of ''K_'' cam_id \<Longrightarrow>
           intrinsics (obj st') = intrinsics (obj st)"
    and "fst (read_label line) \<noteq> label_of ''D_'' cam_id \<Longrightarrow>
           distortion_coeff5 st' = distortion_coeff5 st"
    and "fst (read_label line) \<noteq> label_of ''R_'' cam_id \<Longrightarrow> cvR st' = cvR st"
    and "fst (read_label line) \<noteq> label_of ''T_'' cam_id \<Longrightarrow> cvT st' = cvT st"
  using assms by (cases rule: process_line_cases; simp)+

lemma scan_lines_invariant:
  assumes "scan_lines rd cam_id ls st = Inr st'"
    and "P st"
    and "\<And>line s s'. P s \<Longrightarrow> process_line rd cam_id line s = Inr s' \<Longrightarrow> P s'"
  shows "P st'"
  using assms(1,2)
proof (induction ls arbitrary: st)
  case Nil
  then show ?case by simp
next
  case (Cons line ls)
  from Cons.prems(1) obtain s where step: "process_line rd cam_id line st = Inr s"
    and rest: "scan_lines rd cam_id ls s = Inr st'"
    by (auto split: sum.splits)
  from assms(3) [OF Cons.prems(2) step] have "P s" .
  with Cons.IH rest show ?case by blast
qed

lemma scan_lines_unchanged:
  assumes "scan_lines rd cam_id ls st = Inr st'"
    and "\<forall>l\<in>set ls. fst (read_label l) \<noteq> lab"
    and "\<And>line s s'. process_line rd cam_id line s = Inr s' \<Longrightarrow>
           fst (read_label line) \<noteq> lab \<Longrightarrow> f s' = f s"
  shows "f st' = f st"
  using assms(1,2)
proof (induction ls arbitrary: st)
  case Nil
  then show ?case by simp
next
  case (Cons line ls)
  from Cons.prems(1) obtain s where step: "process_line rd cam_id line st = Inr s"
    and rest: "scan_lines rd cam_id ls s = Inr st'"
    by (auto split: sum.splits)
  from Cons.prems(2) have "fst (read_label line) \<noteq> lab" by simp
  with assms(3) step have "f s = f st" by blast
  moreover from Cons.IH rest Cons.prems(2) have "f st' = f s" by simp
  ultimately show ?case by simp
qed

lemma scan_lines_frame:
  assumes "scan_lines rd cam_id ls st = Inr st'"
  shows "\<forall>l\<in>set ls. fst (read_label l) \<noteq> label_of ''S_'' cam_id \<Longrightarrow>
           image_size (obj st') = image_size (obj st)"
    and "\<forall>l\<in>set ls. fst (read_label l) \<noteq> label_of ''K_'' cam_id \<Longrightarrow>
           intrinsics (obj st') = intrinsics (obj st)"
    and "\<forall>l\<in>set ls. fst (read_label l) \<noteq> label_of ''D_'' cam_id \<Longrightarrow>
           distortion_coeff5 st' = distortion_coeff5 st"
    and "\<forall>l\<in>set ls. fst (read_label l) \<noteq> label_of ''R_'' cam_id \<Longrightarrow> cvR st' = cvR st"
    and "\<forall>l\<in>set ls. fst (read_label l) \<noteq> label_of ''T_'' cam_id \<Longrightarrow> cvT st' = cvT st"
proof -
  show "\<forall>l\<in>set ls. fst (read_label l) \<noteq> label_of ''S_'' cam_id \<Longrightarrow>
          image_size (obj st') = image_size (obj st)"
    by (rule scan_lines_unchanged [OF assms, where f = "\<lambda>s. image_size (obj s)"])
       (blast intro: process_line_frame(1))+
  show "\<forall>l\<in>set ls. fst (read_label l) \<noteq> label_of ''K_'' cam_id \<Longrightarrow>
          intrinsics (obj st') = intrinsics (obj st)"
    by (rule scan_lines_unchanged [OF assms, where f = "\<lambda>s. intrinsics (obj s)"])
       (blast intro: process_line_frame(2))+
  show "\<forall>l\<in>set ls. fst (read_label l) \<noteq> label_of ''D_'' cam_id \<Longrightarrow>
          distortion_coeff5 st' = distortion_coeff5 st"
    by (rule scan_lines_unchanged [OF assms, where f = distortion_coeff5])
       (blast intro: process_line_frame(3))+
  show "\<forall>l\<in>set ls. fst (read_label l) \<noteq> label_of ''R_'' cam_id \<Longrightarrow> cvR st' = cvR st"
    by (rule scan_lines_unchanged [OF assms, where f = cvR])
       (blast intro: process_line_frame(4))+
  show "\<forall>l\<in>set ls. fst (read_label l) \<noteq> label_of ''T_'' cam_id \<Longrightarrow> cvT st' = cvT st"
    by (rule scan_lines_unchanged [OF assms, where f = cvT])
       (blast intro: process_line_frame(5))+
qed

subsection \<open>Invariants of the read loop\<close>

lemma finite_mat_set: "finite_mat r c M \<Longrightarrow> finite_mat r c (mat_set M i j (Finite v))"
  using set_update_subset_insert [of "data M" "i * cols M + j" "Finite v"]
  by (auto simp: finite_mat_def mat_set_def)

lemma finite_mat_zeros: "finite_mat r c (Mat_zeros r c)"
  by (simp add: finite_mat_def Mat_zeros_def)

lemma read_R_finite:
  "read_R rd stream val M idxs = Inr M' \<Longrightarrow> finite_mat r c M \<Longrightarrow> finite_mat r c M'"
  by (induction idxs arbitrary: stream val M)
     (auto split: prod.splits option.splits intro: finite_mat_set)

lemma read_T_finite:
  "read_T rd stream val M idxs = Inr M' \<Longrightarrow> finite_mat r c M \<Longrightarrow> finite_mat r c M'"
  by (induction idxs arbitrary: stream val M)
     (auto split: prod.splits option.splits intro: finite_mat_set)

lemma process_line_finite:
  assumes "finite_mat 3 3 (cvR st) \<and> finite_mat 3 1 (cvT st)"
    and "process_line rd cam_id line st = Inr st'"
  shows "finite_mat 3 3 (cvR st') \<and> finite_mat 3 1 (cvT st')"
  using assms(2)
proof (cases rule: process_line_cases)
  case (R M)
  from R(2) assms(1) have "finite_mat 3 3 M"
    using read_R_finite by blast
  with R(3) assms(1) show ?thesis by simp
next
  case (T M)
  from T(2) assms(1) have "finite_mat 3 1 M"
    using read_T_finite by blast
  with T(3) assms(1) show ?thesis by simp
qed (use assms(1) in simp_all)

text \<open>The camera matrix is the one built from the intrinsics, once there are four.\<close>

lemma process_line_camera_matrix:
  assumes "length (intrinsics (obj st)) < 4 \<or>
           camera_matrix (obj st) = intrinsics_to_camera_matrix (intrinsics (obj st))"
    and "process_line rd cam_id line st = Inr st'"
  shows "length (intrinsics (obj st')) < 4 \<or>
         camera_matrix (obj st') = intrinsics_to_camera_matrix (intrinsics (obj st'))"
  using assms(2,1)
  by (cases rule: process_line_cases) auto

text \<open>The vector of distortion coefficients is empty until a \<open>D\<close> record fills it with
  five or more, the first five of which are the stored matrix.\<close>

lemma process_line_distortion:
  assumes "distortion_coeff5 st = [] \<or>
           (5 \<le> length (distortion_coeff5 st) \<and>
            distortion_coeff (obj st) =
              \<lparr>rows = 1, cols = 5, data = take 5 (distortion_coeff5 st)\<rparr>)"
    and "process_line rd cam_id line st = Inr st'"
  shows "distortion_coeff5 st' = [] \<or>
         (5 \<le> length (distortion_coeff5 st') \<and>
          distortion_coeff (obj st') =
            \<lparr>rows = 1, cols = 5, data = take 5 (distortion_coeff5 st')\<rparr>)"
  using assms(2,1)
proof (cases rule: process_line_cases)
  case (D coeff5)
  from D(3) have "take 5 coeff5 = [coeff5 ! 0, coeff5 ! 1, coeff5 ! 2, coeff5 ! 3, coeff5 ! 4]"
    by (simp add: list_eq_iff_nth_eq nth_Cons' eval_nat_numeral less_Suc_eq)
  with D show ?thesis by simp
qed auto

lemma scan_lines_distortion_coeff5:
  "scan_lines rd cam_id ls st = Inr st' \<Longrightarrow>
   distortion_coeff5 st' =
     distortion_coeff5 st @
     concat (map (\<lambda>l. map Finite (read_all rd (snd (read_label l))))
               (filter (\<lambda>l. fst (read_label l) = label_of ''D_'' cam_id) ls))"
proof (induction ls arbitrary: st)
  case Nil
  then show ?case by simp
next
  case (Cons line ls)
  from Cons.prems obtain s where step: "process_line rd cam_id line st = Inr s"
    and rest: "scan_lines rd cam_id ls s = Inr st'"
    by (auto split: sum.splits)
  from step have "distortion_coeff5 s =
      distortion_coeff5 st @
      (if fst (read_label line) = label_of ''D_'' cam_id
       then map Finite (read_all rd (snd (read_label line))) else [])"
    using label_of_distinct [of cam_id]
    by (cases rule: process_line_cases) (auto simp: recognized_def)
  with Cons.IH [OF rest] show ?case by simp
qed

subsection \<open>Files without the records of one label\<close>

text \<open>Dropping the records of one label, when such a record only sets one variable.\<close>

lemma scan_lines_remove:
  fixes u :: "'v \<Rightarrow> scan \<Rightarrow> scan"
  assumes own: "\<And>line s s'. fst (read_label line) = lab \<Longrightarrow>
             process_line rd cam_id line s = Inr s' \<Longrightarrow> \<exists>w. s' = u w s"
    and other: "\<And>line s s' v. fst (read_label line) \<noteq> lab \<Longrightarrow>
             process_line rd cam_id line s = Inr s' \<Longrightarrow>
             process_line rd cam_id line (u v s) = Inr (u v s')"
    and idem: "\<And>v w s. u v (u w s) = u v s"
    and scan: "scan_lines rd cam_id ls s = Inr s'"
  shows "scan_lines rd cam_id (filter (\<lambda>l. fst (read_label l) \<noteq> lab) ls) (u v s) = Inr (u v s')"
  using scan
proof (induction ls arbitrary: s)
  case Nil
  then show ?case by simp
next
  case (Cons line ls)
  from Cons.prems obtain s1 where step: "process_line rd cam_id line s = Inr s1"
    and rest: "scan_lines rd cam_id ls s1 = Inr s'"
    by (auto split: sum.splits)
  from Cons.IH [OF rest]
  have IH: "scan_lines rd cam_id (filter (\<lambda>l. fst (read_label l) \<noteq> lab) ls) (u v s1) =
      Inr (u v s')" .
  show ?case
  proof (cases "fst (read_label line) = lab")
    case True
    with own step obtain w where "s1 = u w s" by blast
    with idem have "u v s1 = u v s" by simp
    with IH True show ?thesis by simp
  next
    case False
    with other step have "process_line rd cam_id line (u v s) = Inr (u v s1)" by blast
    with IH False show ?thesis by simp
  qed
qed

lemma process_line_S_Inr:
  assumes "fst (read_label line) = label_of ''S_'' cam_id"
    and "process_line rd cam_id line s = Inr s'"
  obtains sz where "s' = s\<lparr>obj := (obj s)\<lparr>image_size := sz\<rparr>\<rparr>"
    and "\<And>t. process_line rd cam_id line t = Inr (t\<lparr>obj := (obj t)\<lparr>image_size := sz\<rparr>\<rparr>)"
proof -
  from assms obtain sz where sz: "read_S rd (snd (read_label line)) = Inr sz"
    by (auto simp: process_line_S split: sum.splits)
  with assms(1) have all: "\<And>t. process_line rd cam_id line t =
      Inr (t\<lparr>obj := (obj t)\<lparr>image_size := sz\<rparr>\<rparr>)"
    by (simp add: process_line_S)
  with assms(2) have "s' = s\<lparr>obj := (obj s)\<lparr>image_size := sz\<rparr>\<rparr>"
    by simp
  with all that show ?thesis by blast
qed

lemma process_line_set_image_size:
  assumes "fst (read_label line) \<noteq> label_of ''S_'' cam_id"
    and "process_line rd cam_id line s = Inr s'"
  shows "process_line rd cam_id line (s\<lparr>obj := (obj s)\<lparr>image_size := z\<rparr>\<rparr>) =
         Inr (s'\<lparr>obj := (obj s')\<lparr>image_size := z\<rparr>\<rparr>)"
  using assms(2)
proof (cases rule: process_line_cases)
  case (S sz)
  with assms(1) show ?thesis by simp
next
  case (K K_vector)
  then show ?thesis by (simp add: process_line_K Let_def)
next
  case (D coeff5)
  then show ?thesis by (simp add: process_line_D Let_def)
next
  case (R M)
  then show ?thesis by (simp add: process_line_R)
next
  case (T M)
  then show ?thesis by (simp add: process_line_T)
next
  case other
  then show ?thesis by (simp add: process_line_other)
qed

lemma process_line_set_cvR:
  assumes "fst (read_label line) \<noteq> label_of ''R_'' cam_id"
    and "process_line rd cam_id line s = Inr s'"
  shows "process_line rd cam_id line (s\<lparr>cvR := Z\<rparr>) = Inr (s'\<lparr>cvR := Z\<rparr>)"
  using assms(2)
proof (cases rule: process_line_cases)
  case (S sz0)
  from S(1) assms(2) show ?thesis
    by (rule process_line_S_Inr) simp
next
  case (K K_vector)
  then show ?thesis by (simp add: process_line_K Let_def)
next
  case (D coeff5)
  then show ?thesis by (simp add: process_line_D Let_def)
next
  case (R M)
  with assms(1) show ?thesis by simp
next
  case (T M)
  then show ?thesis by (simp add: process_line_T)
next
  case other
  then show ?thesis by (simp add: process_line_other)
qed

lemma process_line_set_cvT:
  assumes "fst (read_label line) \<noteq> label_of ''T_'' cam_id"
    and "process_line rd cam_id line s = Inr s'"
  shows "process_line rd cam_id line (s\<lparr>cvT := Z\<rparr>) = Inr (s'\<lparr>cvT := Z\<rparr>)"
  using assms(2)
proof (cases rule: process_line_cases)
  case (S sz0)
  from S(1) assms(2) show ?thesis
    by (rule process_line_S_Inr) simp
next
  case (K K_vector)
  then show ?thesis by (simp add: process_line_K Let_def)
next
  case (D coeff5)
  then show ?thesis by (simp add: process_line_D Let_def)
next
  case (R M)
  then show ?thesis by (simp add: process_line_R)
next
  case (T M)
  with assms(1) show ?thesis by simp
next
  case other
  then show ?thesis by (simp add: process_line_other)
qed

lemma scan_lines_without_S:
  assumes "scan_lines rd cam_id ls s = Inr s'"
  shows "scan_lines rd cam_id (filter (\<lambda>l. fst (read_label l) \<noteq> label_of ''S_'' cam_id) ls) s =
         Inr (s'\<lparr>obj := (obj s')\<lparr>image_size := image_size (obj s)\<rparr>\<rparr>)"
proof -
  have "scan_lines rd cam_id (filter (\<lambda>l. fst (read_label l) \<noteq> label_of ''S_'' cam_id) ls)
          (s\<lparr>obj := (obj s)\<lparr>image_size := image_size (obj s)\<rparr>\<rparr>) =
        Inr (s'\<lparr>obj := (obj s')\<lparr>image_size := image_size (obj s)\<rparr>\<rparr>)"
  proof (rule scan_lines_remove [where u = "\<lambda>z s. s\<lparr>obj := (obj s)\<lparr>image_size := z\<rparr>\<rparr>", OF _ _ _ assms])
    fix line s s'
    assume "fst (read_label line) = label_of ''S_'' cam_id"
      and "process_line rd cam_id line s = Inr s'"
    then show "\<exists>w. s' = s\<lparr>obj := (obj s)\<lparr>image_size := w\<rparr>\<rparr>"
      by (rule process_line_S_Inr) blast
  next
    fix line s s' v
    assume "fst (read_label line) \<noteq> label_of ''S_'' cam_id"
      and "process_line rd cam_id line s = Inr s'"
    then show "process_line rd cam_id line (s\<lparr>obj := (obj s)\<lparr>image_size := v\<rparr>\<rparr>) =
        Inr (s'\<lparr>obj := (obj s')\<lparr>image_size := v\<rparr>\<rparr>)"
      by (rule process_line_set_image_size)
  qed simp
  then show ?thesis by simp
qed

lemma scan_lines_without_R:
  assumes "scan_lines rd cam_id ls s = Inr s'"
  shows "scan_lines rd cam_id (filter (\<lambda>l. fst (read_label l) \<noteq> label_of ''R_'' cam_id) ls) s =
         Inr (s'\<lparr>cvR := cvR s\<rparr>)"
proof -
  have "scan_lines rd cam_id (filter (\<lambda>l. fst (read_label l) \<noteq> label_of ''R_'' cam_id) ls)
          (s\<lparr>cvR := cvR s\<rparr>) = Inr (s'\<lparr>cvR := cvR s\<rparr>)"
  proof (rule scan_lines_remove [where u = "\<lambda>Z s. s\<lparr>cvR := Z\<rparr>", OF _ _ _ assms])
    fix line s s'
    assume "fst (read_label line) = label_of ''R_'' cam_id"
      and "process_line rd cam_id line s = Inr s'"
    then show "\<exists>w. s' = s\<lparr>cvR := w\<rparr>"
      by (auto simp: process_line_R split: sum.splits)
  next
    fix line s s' v
    assume "fst (read_label line) \<noteq> label_of ''R_'' cam_id"
      and "process_line rd cam_id line s = Inr s'"
    then show "process_line rd cam_id line (s\<lparr>cvR := v\<rparr>) = Inr (s'\<lparr>cvR := v\<rparr>)"
      by (rule process_line_set_cvR)
  qed simp
  then show ?thesis by simp
qed

lemma scan_lines_without_T:
  assumes "scan_lines rd cam_id ls s = Inr s'"
  shows "scan_lines rd cam_id (filter (\<lambda>l. fst (read_label l) \<noteq> label_of ''T_'' cam_id) ls) s =
         Inr (s'\<lparr>cvT := cvT s\<rparr>)"
proof -
  have "scan_lines rd cam_id (filter (\<lambda>l. fst (read_label l) \<noteq> label_of ''T_'' cam_id) ls)
          (s\<lparr>cvT := cvT s\<rparr>) = Inr (s'\<lparr>cvT := cvT s\<rparr>)"
  proof (rule scan_lines_remove [where u = "\<lambda>Z s. s\<lparr>cvT := Z\<rparr>", OF _ _ _ assms])
    fix line s s'
    assume "fst (read_label line) = label_of ''T_'' cam_id"
      and "process_line rd cam_id line s = Inr s'"
    then show "\<exists>w. s' = s\<lparr>cvT := w\<rparr>"
      by (auto simp: process_line_T split: sum.splits)
  next
    fix line s s' v
    assume "fst (read_label line) \<noteq> label_of ''T_'' cam_id"
      and "process_line rd cam_id line s = Inr s'"
    then show "process_line rd cam_id line (s\<lparr>cvT := v\<rparr>) = Inr (s'\<lparr>cvT := v\<rparr>)"
      by (rule process_line_set_cvT)
  qed simp
  then show ?thesis by simp
qed

lemma process_line_set_intrinsics:
  assumes "fst (read_label line) \<noteq> label_of ''K_'' cam_id"
    and "process_line rd cam_id line s = Inr s'"
  shows "process_line rd cam_id line (s\<lparr>obj := (obj s)\<lparr>intrinsics := i, camera_matrix := cm\<rparr>\<rparr>) =
         Inr (s'\<lparr>obj := (obj s')\<lparr>intrinsics := i, camera_matrix := cm\<rparr>\<rparr>)"
  using assms(2)
proof (cases rule: process_line_cases)
  case (S sz0)
  from S(1) assms(2) show ?thesis
    by (rule process_line_S_Inr) simp
next
  case (K K_vector)
  with assms(1) show ?thesis by simp
next
  case (D coeff5)
  then show ?thesis by (simp add: process_line_D Let_def)
next
  case (R M)
  then show ?thesis by (simp add: process_line_R)
next
  case (T M)
  then show ?thesis by (simp add: process_line_T)
next
  case other
  then show ?thesis by (simp add: process_line_other)
qed

lemma process_line_set_distortion:
  assumes "fst (read_label line) \<noteq> label_of ''D_'' cam_id"
    and "process_line rd cam_id line s = Inr s'"
  shows "process_line rd cam_id line
           (s\<lparr>obj := (obj s)\<lparr>distortion_coeff := dc\<rparr>, distortion_coeff5 := d5\<rparr>) =
         Inr (s'\<lparr>obj := (obj s')\<lparr>distortion_coeff := dc\<rparr>, distortion_coeff5 := d5\<rparr>)"
  using assms(2)
proof (cases rule: process_line_cases)
  case (S sz0)
  from S(1) assms(2) show ?thesis
    by (rule process_line_S_Inr) simp
next
  case (K K_vector)
  then show ?thesis by (simp add: process_line_K Let_def)
next
  case (D coeff5)
  with assms(1) show ?thesis by simp
next
  case (R M)
  then show ?thesis by (simp add: process_line_R)
next
  case (T M)
  then show ?thesis by (simp add: process_line_T)
next
  case other
  then show ?thesis by (simp add: process_line_other)
qed

lemma scan_lines_without_K:
  assumes "scan_lines rd cam_id ls s = Inr s'"
  shows "scan_lines rd cam_id (filter (\<lambda>l. fst (read_label l) \<noteq> label_of ''K_'' cam_id) ls) s =
         Inr (s'\<lparr>obj := (obj s')\<lparr>intrinsics := intrinsics (obj s),
                                camera_matrix := camera_matrix (obj s)\<rparr>\<rparr>)"
proof -
  have "scan_lines rd cam_id (filter (\<lambda>l. fst (read_label l) \<noteq> label_of ''K_'' cam_id) ls)
          (s\<lparr>obj := (obj s)\<lparr>intrinsics := fst (intrinsics (obj s), camera_matrix (obj s)),
                            camera_matrix := snd (intrinsics (obj s), camera_matrix (obj s))\<rparr>\<rparr>) =
        Inr (s'\<lparr>obj := (obj s')\<lparr>intrinsics := fst (intrinsics (obj s), camera_matrix (obj s)),
                              camera_matrix := snd (intrinsics (obj s), camera_matrix (obj s))\<rparr>\<rparr>)"
  proof (rule scan_lines_remove
      [where u = "\<lambda>v s. s\<lparr>obj := (obj s)\<lparr>intrinsics := fst v, camera_matrix := snd v\<rparr>\<rparr>",
        OF _ _ _ assms])
    fix line s s'
    assume "process_line rd cam_id line s = Inr s'"
      and "fst (read_label line) = label_of ''K_'' cam_id"
    then show "\<exists>w. s' = s\<lparr>obj := (obj s)\<lparr>intrinsics := fst w, camera_matrix := snd w\<rparr>\<rparr>"
      by (cases rule: process_line_cases)
         (use label_of_distinct [of cam_id] in \<open>auto simp: recognized_def\<close>)
  next
    fix line s s' v
    assume "fst (read_label line) \<noteq> label_of ''K_'' cam_id"
      and "process_line rd cam_id line s = Inr s'"
    then show "process_line rd cam_id line
          (s\<lparr>obj := (obj s)\<lparr>intrinsics := fst v, camera_matrix := snd v\<rparr>\<rparr>) =
        Inr (s'\<lparr>obj := (obj s')\<lparr>intrinsics := fst v, camera_matrix := snd v\<rparr>\<rparr>)"
      by (rule process_line_set_intrinsics)
  qed simp
  then show ?thesis by simp
qed

lemma scan_lines_without_D:
  assumes "scan_lines rd cam_id ls s = Inr s'"
  shows "scan_lines rd cam_id (filter (\<lambda>l. fst (read_label l) \<noteq> label_of ''D_'' cam_id) ls) s =
         Inr (s'\<lparr>obj := (obj s')\<lparr>distortion_coeff := distortion_coeff (obj s)\<rparr>,
                 distortion_coeff5 := distortion_coeff5 s\<rparr>)"
proof -
  have "scan_lines rd cam_id (filter (\<lambda>l. fst (read_label l) \<noteq> label_of ''D_'' cam_id) ls)
          (s\<lparr>obj := (obj s)\<lparr>distortion_coeff := snd (distortion_coeff5 s, distortion_coeff (obj s))\<rparr>,
             distortion_coeff5 := fst (distortion_coeff5 s, distortion_coeff (obj s))\<rparr>) =
        Inr (s'\<lparr>obj := (obj s')\<lparr>distortion_coeff := snd (distortion_coeff5 s, distortion_coeff (obj s))\<rparr>,
                distortion_coeff5 := fst (distortion_coeff5 s, distortion_coeff (obj s))\<rparr>)"
  proof (rule scan_lines_remove
      [where u = "\<lambda>v s. s\<lparr>obj := (obj s)\<lparr>distortion_coeff := snd v\<rparr>, distortion_coeff5 := fst v\<rparr>",
        OF _ _ _ assms])
    fix line s s'
    assume "process_line rd cam_id line s = Inr s'"
      and "fst (read_label line) = label_of ''D_'' cam_id"
    then show "\<exists>w. s' = s\<lparr>obj := (obj s)\<lparr>distortion_coeff := snd w\<rparr>, distortion_coeff5 := fst w\<rparr>"
      by (cases rule: process_line_cases)
         (use label_of_distinct [of cam_id] in \<open>auto simp: recognized_def\<close>)
  next
    fix line s s' v
    assume "fst (read_label line) \<noteq> label_of ''D_'' cam_id"
      and "process_line rd cam_id line s = Inr s'"
    then show "process_line rd cam_id line
          (s\<lparr>obj := (obj s)\<lparr>distortion_coeff := snd v\<rparr>, distortion_coeff5 := fst v\<rparr>) =
        Inr (s'\<lparr>obj := (obj s')\<lparr>distortion_coeff := snd v\<rparr>, distortion_coeff5 := fst v\<rparr>)"
      by (rule process_line_set_distortion)
  qed simp
  then show ?thesis by simp
qed

subsection \<open>The whole parse\<close>

lemma parseKITTICalib_Inr:
  assumes "parseKITTICalib rd files filepath R_ref T_ref cam_id this = Inr (b, m)"
  obtains calib_file st R T where
    "files filepath = Some calib_file"
    "read_loop rd files filepath cam_id this = Inr st"
    "scan_lines rd cam_id (getlines calib_file) (loop_start this) = Inr st"
    "mat_mul R_ref (cvR st) = Inr R"
    "mat_add T_ref (cvT st) = Inr T"
    "4 \<le> length (intrinsics (obj st))"
    "4 \<le> length (distortion_coeff5 st)"
    "b = True"
    "m = (obj st)\<lparr>body_Pose_cam := Cvmats2pose R T,
                   calibration :=
                     make_Cal3DS2 (intrinsics (obj st) ! 0) (intrinsics (obj st) ! 1) (Finite 0)
                       (intrinsics (obj st) ! 2) (intrinsics (obj st) ! 3)
                       (distortion_coeff5 st ! 0) (distortion_coeff5 st ! 1)
                       (distortion_coeff5 st ! 2) (distortion_coeff5 st ! 3)\<rparr>"
  using assms
  by (auto simp: parseKITTICalib_def read_loop_def after_loop_def Let_def
      split: option.splits sum.splits if_splits)

lemma finite_9:
  assumes "length xs = 9" and "\<forall>d\<in>set xs. \<exists>x. d = Finite x"
  obtains a0 a1 a2 a3 a4 a5 a6 a7 a8 where
    "xs = [Finite a0, Finite a1, Finite a2, Finite a3, Finite a4, Finite a5, Finite a6,
           Finite a7, Finite a8]"
proof -
  from assms(1) obtain d0 d1 d2 d3 d4 d5 d6 d7 d8 where
    xs: "xs = [d0, d1, d2, d3, d4, d5, d6, d7, d8]"
    by (auto simp: eval_nat_numeral length_Suc_conv)
  with assms(2) that show ?thesis
    by auto
qed

lemma finite_3:
  assumes "length xs = 3" and "\<forall>d\<in>set xs. \<exists>x. d = Finite x"
  obtains a0 a1 a2 where "xs = [Finite a0, Finite a1, Finite a2]"
proof -
  from assms(1) obtain d0 d1 d2 where xs: "xs = [d0, d1, d2]"
    by (auto simp: eval_nat_numeral length_Suc_conv)
  with assms(2) that show ?thesis
    by auto
qed

lemma mat_mul_eye:
  assumes "finite_mat 3 3 M"
  shows "mat_mul (Mat_eye 3 3) M = Inr M"
proof -
  from assms have dims: "rows M = 3" "cols M = 3" and len: "length (data M) = 9"
    and fin: "\<forall>d\<in>set (data M). \<exists>x. d = Finite x"
    by (simp_all add: finite_mat_def)
  from len fin obtain a0 a1 a2 a3 a4 a5 a6 a7 a8 where
    "data M = [Finite a0, Finite a1, Finite a2, Finite a3, Finite a4, Finite a5, Finite a6,
               Finite a7, Finite a8]"
    by (rule finite_9)
  with dims have M: "M = \<lparr>rows = 3, cols = 3,
      data = [Finite a0, Finite a1, Finite a2, Finite a3, Finite a4, Finite a5, Finite a6,
              Finite a7, Finite a8]\<rparr>"
    by (cases M) simp
  show ?thesis
    unfolding M Mat_eye_3_3
    by (simp add: mat_mul_def mat_entry_def mat_at_def numeral_3_eq_3)
qed

lemma mat_add_zeros:
  assumes "finite_mat 3 1 M"
  shows "mat_add (Mat_zeros 3 1) M = Inr M"
proof -
  from assms have dims: "rows M = 3" "cols M = 1" and len: "length (data M) = 3"
    and fin: "\<forall>d\<in>set (data M). \<exists>x. d = Finite x"
    by (simp_all add: finite_mat_def)
  from len fin obtain a0 a1 a2 where "data M = [Finite a0, Finite a1, Finite a2]"
    by (rule finite_3)
  with dims have M: "M = \<lparr>rows = 3, cols = 1, data = [Finite a0, Finite a1, Finite a2]\<rparr>"
    by (cases M) simp
  show ?thesis
    unfolding M Mat_zeros_3_1
    by (simp add: mat_add_def)
qed

lemma loop_start_finite:
  "finite_mat 3 3 (cvR (loop_start this)) \<and> finite_mat 3 1 (cvT (loop_start this))"
  by (simp add: loop_start_def finite_mat_zeros)

lemma scan_lines_finite:
  assumes "scan_lines rd cam_id ls (loop_start this) = Inr st"
  shows "finite_mat 3 3 (cvR st)" and "finite_mat 3 1 (cvT st)"
  using scan_lines_invariant [OF assms,
      where P = "\<lambda>s. finite_mat 3 3 (cvR s) \<and> finite_mat 3 1 (cvT s)"]
    loop_start_finite process_line_finite
  by blast+

lemma scan_lines_camera_matrix:
  assumes "scan_lines rd cam_id ls st = Inr st'"
    and "length (intrinsics (obj st)) < 4 \<or>
         camera_matrix (obj st) = intrinsics_to_camera_matrix (intrinsics (obj st))"
  shows "length (intrinsics (obj st')) < 4 \<or>
         camera_matrix (obj st') = intrinsics_to_camera_matrix (intrinsics (obj st'))"
  using scan_lines_invariant [OF assms(1),
      where P = "\<lambda>s. length (intrinsics (obj s)) < 4 \<or>
                     camera_matrix (obj s) = intrinsics_to_camera_matrix (intrinsics (obj s))"]
    assms(2) process_line_camera_matrix
  by blast

lemma scan_lines_distortion:
  assumes "scan_lines rd cam_id ls (loop_start this) = Inr st"
  shows "distortion_coeff5 st = [] \<or>
         (5 \<le> length (distortion_coeff5 st) \<and>
          distortion_coeff (obj st) =
            \<lparr>rows = 1, cols = 5, data = take 5 (distortion_coeff5 st)\<rparr>)"
proof -
  have "distortion_coeff5 (loop_start this) = []"
    by (simp add: loop_start_def)
  then show ?thesis
    using scan_lines_invariant [OF assms,
        where P = "\<lambda>s. distortion_coeff5 s = [] \<or>
           (5 \<le> length (distortion_coeff5 s) \<and>
            distortion_coeff (obj s) =
              \<lparr>rows = 1, cols = 5, data = take 5 (distortion_coeff5 s)\<rparr>)"]
      process_line_distortion
    by blast
qed

lemma getlines_last: "newline \<notin> set l \<Longrightarrow> getlines l = [l]"
proof -
  assume "newline \<notin> set l"
  then have parts: "takeWhile (\<lambda>c. c \<noteq> newline) l = l"
    "dropWhile (\<lambda>c. c \<noteq> newline) l = []"
    by (auto simp: takeWhile_eq_all_conv)
  show ?thesis
    by (subst getlines.simps) (simp only: parts Let_def list.case)
qed

lemma getlines_line: "newline \<notin> set l \<Longrightarrow> getlines (l @ newline # s) = l # getlines s"
proof -
  assume "newline \<notin> set l"
  then have parts: "takeWhile (\<lambda>c. c \<noteq> newline) (l @ newline # s) = l"
    "dropWhile (\<lambda>c. c \<noteq> newline) (l @ newline # s) = newline # s"
    by (auto simp: takeWhile_append dropWhile_append)
  show ?thesis
    by (subst getlines.simps) (simp only: parts Let_def list.case)
qed

lemma getlines_join_lines:
  "ls \<noteq> [] \<Longrightarrow> newline \<notin> set (concat ls) \<Longrightarrow> getlines (join_lines ls) = ls"
  by (induction ls rule: join_lines.induct) (simp_all add: getlines_last getlines_line)

lemma scan_lines_join_lines:
  assumes "newline \<notin> set (concat ls)"
  shows "scan_lines rd cam_id (getlines (join_lines ls)) st = scan_lines rd cam_id ls st"
proof (cases "ls = []")
  case True
  then show ?thesis
    by (simp add: getlines_last process_line_blank)
next
  case False
  with assms show ?thesis
    by (simp add: getlines_join_lines)
qed

lemma scan_lines_skip:
  "scan_lines rd cam_id (filter (\<lambda>l. l = [] \<or> recognized cam_id (fst (read_label l))) ls) st =
   scan_lines rd cam_id ls st"
proof (induction ls arbitrary: st)
  case Nil
  show ?case by simp
next
  case (Cons line ls)
  show ?case
  proof (cases "line = [] \<or> recognized cam_id (fst (read_label line))")
    case True
    with Cons.IH show ?thesis by (simp split: sum.splits)
  next
    case False
    then have "process_line rd cam_id line st = Inr st"
      by (simp add: process_line_other)
    with False Cons.IH show ?thesis by simp
  qed
qed

lemma concat_filter_subset: "x \<notin> set (concat ls) \<Longrightarrow> x \<notin> set (concat (filter P ls))"
  by auto

lemma parseKITTICalib_join_lines:
  assumes "newline \<notin> set (concat ls)"
  shows "parseKITTICalib rd (files(filepath \<mapsto> join_lines ls)) filepath R_ref T_ref cam_id this =
         (case scan_lines rd cam_id ls (loop_start this) of
            Inl e \<Rightarrow> Inl e
          | Inr st \<Rightarrow> after_loop R_ref T_ref st)"
  using assms by (simp add: parseKITTICalib_def read_loop_def scan_lines_join_lines)

lemma after_loop_Inr:
  assumes "after_loop R_ref T_ref st = Inr (b, m)"
  obtains R T where
    "mat_mul R_ref (cvR st) = Inr R"
    "mat_add T_ref (cvT st) = Inr T"
    "4 \<le> length (intrinsics (obj st))"
    "4 \<le> length (distortion_coeff5 st)"
    "b = True"
    "m = (obj st)\<lparr>body_Pose_cam := Cvmats2pose R T,
                   calibration :=
                     make_Cal3DS2 (intrinsics (obj st) ! 0) (intrinsics (obj st) ! 1) (Finite 0)
                       (intrinsics (obj st) ! 2) (intrinsics (obj st) ! 3)
                       (distortion_coeff5 st ! 0) (distortion_coeff5 st ! 1)
                       (distortion_coeff5 st ! 2) (distortion_coeff5 st ! 3)\<rparr>"
  using assms
  by (auto simp: after_loop_def Let_def split: sum.splits if_splits)

lemma without_clean: "newline \<notin> set (concat ls) \<Longrightarrow> newline \<notin> set (concat (without p c ls))"
  unfolding without_def by (rule concat_filter_subset)

lemma parseKITTICalib_without:
  assumes "newline \<notin> set (concat ls)"
    and "scan_lines rd cam_id (without p cam_id ls) (loop_start this) = Inr st"
  shows "parseKITTICalib rd (files(filepath \<mapsto> join_lines (without p cam_id ls))) filepath
           R_ref T_ref cam_id this = after_loop R_ref T_ref st"
  using parseKITTICalib_join_lines [OF without_clean [OF assms(1)]] assms(2) by simp

lemma scan_lines_append:
  "scan_lines rd cam_id (xs @ ys) st =
     (case scan_lines rd cam_id xs st of
        Inl e \<Rightarrow> Inl e
      | Inr s \<Rightarrow> scan_lines rd cam_id ys s)"
  by (induction xs arbitrary: st) (auto split: sum.splits)

lemma read_all_Extracted:
  "read_double rd ss = Extracted v ss' \<Longrightarrow> read_all rd ss = v # read_all rd ss'"
  by (subst read_all.simps) simp

lemma read_all_Cons:
  assumes "read_all rd ss = v # vs"
  obtains ss' where "read_double rd ss = Extracted v ss'" and "read_all rd ss' = vs"
  using assms by (subst (asm) read_all.simps) (auto split: extraction.splits)

text \<open>A record with a number for every index: the loop stores them in order.\<close>

lemma read_R_numbers:
  "length idxs \<le> length (read_all rd ss) \<Longrightarrow>
   read_R rd (Some ss) val M idxs =
     Inr (foldl (\<lambda>A (i, v). mat_set A (i div 3) (i mod 3) (Finite v)) M
            (zip idxs (take (length idxs) (read_all rd ss))))"
proof (induction idxs arbitrary: ss val M)
  case Nil
  then show ?case by simp
next
  case (Cons i idxs)
  from Cons.prems obtain v vs where "read_all rd ss = v # vs"
    by (cases "read_all rd ss") auto
  then obtain ss' where first: "read_double rd ss = Extracted v ss'"
    and rest: "read_all rd ss' = vs"
    by (rule read_all_Cons)
  from Cons.prems \<open>read_all rd ss = v # vs\<close> rest have "length idxs \<le> length (read_all rd ss')"
    by simp
  from Cons.IH [OF this] first \<open>read_all rd ss = v # vs\<close> rest show ?case
    by (simp add: extract_value_def)
qed

lemma read_T_numbers:
  "length idxs \<le> length (read_all rd ss) \<Longrightarrow>
   read_T rd (Some ss) val M idxs =
     Inr (foldl (\<lambda>A (i, v). mat_set A i 0 (Finite v)) M
            (zip idxs (take (length idxs) (read_all rd ss))))"
proof (induction idxs arbitrary: ss val M)
  case Nil
  then show ?case by simp
next
  case (Cons i idxs)
  from Cons.prems obtain v vs where "read_all rd ss = v # vs"
    by (cases "read_all rd ss") auto
  then obtain ss' where first: "read_double rd ss = Extracted v ss'"
    and rest: "read_all rd ss' = vs"
    by (rule read_all_Cons)
  from Cons.prems \<open>read_all rd ss = v # vs\<close> rest have "length idxs \<le> length (read_all rd ss')"
    by simp
  from Cons.IH [OF this] first \<open>read_all rd ss = v # vs\<close> rest show ?case
    by (simp add: extract_value_def)
qed

lemma list_9:
  assumes "length ys = 9"
  obtains v0 v1 v2 v3 v4 v5 v6 v7 v8 where "ys = [v0, v1, v2, v3, v4, v5, v6, v7, v8]"
  using assms by (auto simp: eval_nat_numeral length_Suc_conv)

lemma list_3:
  assumes "length ys = 3"
  obtains v0 v1 v2 where "ys = [v0, v1, v2]"
  using assms by (auto simp: eval_nat_numeral length_Suc_conv)

lemma read_R_all:
  assumes "9 \<le> length (read_all rd ss)" and "finite_mat 3 3 M"
  shows "read_R rd (Some ss) val M [0, 1, 2, 3, 4, 5, 6, 7, 8] =
         Inr \<lparr>rows = 3, cols = 3, data = map Finite (take 9 (read_all rd ss))\<rparr>"
proof -
  have nine: "length [0::nat, 1, 2, 3, 4, 5, 6, 7, 8] = 9" by simp
  from assms(1) have enough: "length [0::nat, 1, 2, 3, 4, 5, 6, 7, 8] \<le> length (read_all rd ss)"
    by simp
  note stored = read_R_numbers [OF enough, unfolded nine]
  from assms(1) have "length (take 9 (read_all rd ss)) = 9" by simp
  then obtain v0 v1 v2 v3 v4 v5 v6 v7 v8 where
    vs: "take 9 (read_all rd ss) = [v0, v1, v2, v3, v4, v5, v6, v7, v8]"
    by (rule list_9)
  from assms(2) have dims: "rows M = 3" "cols M = 3" and len: "length (data M) = 9"
    by (simp_all add: finite_mat_def)
  from len obtain d0 d1 d2 d3 d4 d5 d6 d7 d8 where
    "data M = [d0, d1, d2, d3, d4, d5, d6, d7, d8]"
    by (rule list_9)
  with dims have M: "M = \<lparr>rows = 3, cols = 3, data = [d0, d1, d2, d3, d4, d5, d6, d7, d8]\<rparr>"
    by (cases M) simp
  show ?thesis
    unfolding stored vs unfolding M by (simp add: mat_set_def)
qed

lemma read_T_all:
  assumes "3 \<le> length (read_all rd ss)" and "finite_mat 3 1 M"
  shows "read_T rd (Some ss) val M [0, 1, 2] =
         Inr \<lparr>rows = 3, cols = 1, data = map Finite (take 3 (read_all rd ss))\<rparr>"
proof -
  have three: "length [0::nat, 1, 2] = 3" by simp
  from assms(1) have enough: "length [0::nat, 1, 2] \<le> length (read_all rd ss)"
    by simp
  note stored = read_T_numbers [OF enough, unfolded three]
  from assms(1) have "length (take 3 (read_all rd ss)) = 3" by simp
  then obtain v0 v1 v2 where vs: "take 3 (read_all rd ss) = [v0, v1, v2]"
    by (rule list_3)
  from assms(2) have dims: "rows M = 3" "cols M = 1" and len: "length (data M) = 3"
    by (simp_all add: finite_mat_def)
  from len obtain d0 d1 d2 where "data M = [d0, d1, d2]"
    by (rule list_3)
  with dims have M: "M = \<lparr>rows = 3, cols = 1, data = [d0, d1, d2]\<rparr>"
    by (cases M) simp
  show ?thesis
    unfolding stored vs unfolding M by (simp add: mat_set_def)
qed

text \<open>After the loop \<^verbatim>\<open>cvR\<close> and \<^verbatim>\<open>cvT\<close> hold the numbers of the last record of their
  label, or are still zero.\<close>

lemma scan_lines_last_R:
  assumes "scan_lines rd cam_id (pre @ l # post) (loop_start this) = Inr st"
    and "fst (read_label l) = label_of ''R_'' cam_id"
    and "without ''R_'' cam_id post = post"
    and "9 \<le> length (read_all rd (snd (read_label l)))"
  shows "cvR st = \<lparr>rows = 3, cols = 3,
                   data = map Finite (take 9 (read_all rd (snd (read_label l))))\<rparr>"
proof -
  from assms(1) obtain s1 s2 where pre: "scan_lines rd cam_id pre (loop_start this) = Inr s1"
    and step: "process_line rd cam_id l s1 = Inr s2"
    and post: "scan_lines rd cam_id post s2 = Inr st"
    by (auto simp: scan_lines_append split: sum.splits)
  from step assms(2) obtain M where
    M: "read_R rd (Some (snd (read_label l))) None (cvR s1) [0, 1, 2, 3, 4, 5, 6, 7, 8] = Inr M"
    and s2: "s2 = s1\<lparr>cvR := M\<rparr>"
    by (auto simp: process_line_R split: sum.splits)
  from assms(3) have "\<forall>l'\<in>set post. fst (read_label l') \<noteq> label_of ''R_'' cam_id"
    by (simp add: without_def filter_id_conv)
  with scan_lines_frame(4) [OF post] have "cvR st = cvR s2" by simp
  with s2 M read_R_all [OF assms(4) scan_lines_finite(1) [OF pre]] show ?thesis
    by simp
qed

lemma scan_lines_last_T:
  assumes "scan_lines rd cam_id (pre @ l # post) (loop_start this) = Inr st"
    and "fst (read_label l) = label_of ''T_'' cam_id"
    and "without ''T_'' cam_id post = post"
    and "3 \<le> length (read_all rd (snd (read_label l)))"
  shows "cvT st = \<lparr>rows = 3, cols = 1,
                   data = map Finite (take 3 (read_all rd (snd (read_label l))))\<rparr>"
proof -
  from assms(1) obtain s1 s2 where pre: "scan_lines rd cam_id pre (loop_start this) = Inr s1"
    and step: "process_line rd cam_id l s1 = Inr s2"
    and post: "scan_lines rd cam_id post s2 = Inr st"
    by (auto simp: scan_lines_append split: sum.splits)
  from step assms(2) obtain M where
    M: "read_T rd (Some (snd (read_label l))) None (cvT s1) [0, 1, 2] = Inr M"
    and s2: "s2 = s1\<lparr>cvT := M\<rparr>"
    by (auto simp: process_line_T split: sum.splits)
  from assms(3) have "\<forall>l'\<in>set post. fst (read_label l') \<noteq> label_of ''T_'' cam_id"
    by (simp add: without_def filter_id_conv)
  with scan_lines_frame(5) [OF post] have "cvT st = cvT s2" by simp
  with s2 M read_T_all [OF assms(4) scan_lines_finite(2) [OF pre]] show ?thesis
    by simp
qed

lemma scan_lines_no_R_T:
  assumes "scan_lines rd cam_id ls (loop_start this) = Inr st"
  shows "without ''R_'' cam_id ls = ls \<Longrightarrow> cvR st = Mat_zeros 3 3"
    and "without ''T_'' cam_id ls = ls \<Longrightarrow> cvT st = Mat_zeros 3 1"
  using scan_lines_frame(4,5) [OF assms]
  by (simp_all add: without_def filter_id_conv loop_start_def)

text \<open>Both parsers leave the camera matrix built from the intrinsics.\<close>

lemma parseYAML_camera_matrix:
  assumes "parseYAML files filepath this = Inr (b, m)"
  shows "4 \<le> length (intrinsics m)"
    and "camera_matrix m = intrinsics_to_camera_matrix (intrinsics m)"
  using assms by (auto elim!: parseYAML_Inr)

lemma parseKITTICalib_camera_matrix:
  assumes "parseKITTICalib rd files filepath R_ref T_ref cam_id this = Inr (b, m)"
    and "length (intrinsics this) < 4 \<or>
         camera_matrix this = intrinsics_to_camera_matrix (intrinsics this)"
  shows "4 \<le> length (intrinsics m)"
    and "camera_matrix m = intrinsics_to_camera_matrix (intrinsics m)"
proof -
  from assms(1) obtain calib_file st R T where
    scan: "scan_lines rd cam_id (getlines calib_file) (loop_start this) = Inr st"
    and four: "4 \<le> length (intrinsics (obj st))"
    and m: "m = (obj st)\<lparr>body_Pose_cam := Cvmats2pose R T,
                   calibration :=
                     make_Cal3DS2 (intrinsics (obj st) ! 0) (intrinsics (obj st) ! 1) (Finite 0)
                       (intrinsics (obj st) ! 2) (intrinsics (obj st) ! 3)
                       (distortion_coeff5 st ! 0) (distortion_coeff5 st ! 1)
                       (distortion_coeff5 st ! 2) (distortion_coeff5 st ! 3)\<rparr>"
    by (rule parseKITTICalib_Inr)
  from assms(2) have "length (intrinsics (obj (loop_start this))) < 4 \<or>
      camera_matrix (obj (loop_start this)) =
        intrinsics_to_camera_matrix (intrinsics (obj (loop_start this)))"
    by (simp add: loop_start_def)
  from scan_lines_camera_matrix [OF scan this] four
  have "camera_matrix (obj st) = intrinsics_to_camera_matrix (intrinsics (obj st))"
    by simp
  with m four show "4 \<le> length (intrinsics m)"
    and "camera_matrix m = intrinsics_to_camera_matrix (intrinsics m)"
    by simp_all
qed

lemma camera_matrix_entries:
  assumes "M = intrinsics_to_camera_matrix intr"
  shows "M = \<lparr>rows = 3, cols = 3,
              data = [intr ! 0, Finite 0, intr ! 2, Finite 0, intr ! 1, intr ! 3,
                      Finite 0, Finite 0, Finite 1]\<rparr> \<and>
         mat_at M 0 0 = intr ! 0 \<and> mat_at M 1 1 = intr ! 1 \<and>
         mat_at M 0 2 = intr ! 2 \<and> mat_at M 1 2 = intr ! 3"
  unfolding assms intrinsics_to_camera_matrix_data by (simp add: mat_at_def)

subsection \<open>The examples, evaluated\<close>

lemmas line_eval =
  process_line_def read_label_def isspace_def label_of_def read_double_def decimal_reader_def
  is_digit_def digit_value_def read_all.simps read_S_def extract_value_def cv_Size_def
  double_to_int_def Let_def mat_set_def

lemma scan_scenario2:
  "scan_lines decimal_reader ''0'' scenario2_lines (loop_start empty_CameraParams) =
   Inr \<lparr>obj = empty_CameraParams
           \<lparr>frame_rate := Finite 0.1,
            image_size := (1242, 375),
            intrinsics := [Finite 721, Finite 721, Finite 609, Finite 172],
            camera_matrix :=
              \<lparr>rows = 3, cols = 3,
               data = [Finite 721, Finite 0, Finite 609, Finite 0, Finite 721, Finite 172,
                       Finite 0, Finite 0, Finite 1]\<rparr>,
            distortion_coeff :=
              \<lparr>rows = 1, cols = 5, data = [Finite 1, Finite 2, Finite 3, Finite 4, Finite 5]\<rparr>\<rparr>,
         cvR = \<lparr>rows = 3, cols = 3,
                data = [Finite 0, Finite 1, Finite 0, Finite 1, Finite 0, Finite 0,
                        Finite 0, Finite 0, Finite 1]\<rparr>,
         cvT = \<lparr>rows = 3, cols = 1, data = [Finite 7, Finite 8, Finite 9]\<rparr>,
         distortion_coeff5 = [Finite 1, Finite 2, Finite 3, Finite 4, Finite 5]\<rparr>"
  by (simp add: scenario2_lines_def loop_start_def empty_CameraParams_def line_eval
      Mat_zeros_3_3 Mat_zeros_3_1 Mat_zeros_1_5 intrinsics_to_camera_matrix_data)

text \<open>A record with too few numbers: the last one read is stored again and again; with
  none at all, the variable is read before anything was stored in it.\<close>

lemma short_R_record:
  "process_line decimal_reader ''0'' ''R_0: 1 2 3'' (loop_start empty_CameraParams) =
   Inr ((loop_start empty_CameraParams)
          \<lparr>cvR := \<lparr>rows = 3, cols = 3,
                     data = [Finite 1, Finite 2, Finite 3, Finite 3, Finite 3, Finite 3,
                             Finite 3, Finite 3, Finite 3]\<rparr>\<rparr>)"
  by (simp add: loop_start_def line_eval Mat_zeros_3_3)

lemma empty_R_record:
  "process_line decimal_reader ''0'' ''R_0:'' (loop_start empty_CameraParams) =
   Inl UndefinedBehaviour"
  by (simp add: loop_start_def line_eval Mat_zeros_3_3)

lemma scenario_clean:
  "newline \<notin> set (concat scenario2_lines)" "newline \<notin> set (concat scenario3_lines)"
  by (simp_all add: scenario2_lines_def scenario3_lines_def newline_def)

lemmas mat_eval = mat_mul_def mat_entry_def mat_at_def mat_add_def numeral_3_eq_3

lemma parse_scenario2:
  "parseKITTICalib decimal_reader [''calib.txt'' \<mapsto> join_lines scenario2_lines] ''calib.txt''
     (Mat_eye 3 3) (Mat_zeros 3 1) ''0'' empty_CameraParams = Inr (True, scenario2_model)"
  unfolding parseKITTICalib_join_lines [OF scenario_clean(1)] scan_scenario2
    Mat_eye_3_3 Mat_zeros_3_1(1)
  by (simp add: after_loop_def mat_eval Cvmats2pose_def scenario2_model_def
      empty_CameraParams_def Let_def)

lemma kept_scenario3:
  "filter (\<lambda>l. l = [] \<or> recognized ''0'' (fst (read_label l))) scenario3_lines = scenario2_lines"
  by (simp add: scenario3_lines_def scenario2_lines_def recognized_def read_label_def
      isspace_def label_of_def)

lemma parse_no_K:
  "parseKITTICalib decimal_reader [''calib.txt'' \<mapsto> join_lines scenario2_no_K_lines]
     ''calib.txt'' (Mat_eye 3 3) (Mat_zeros 3 1) ''0'' empty_CameraParams =
   Inl UndefinedBehaviour"
proof -
  have clean: "newline \<notin> set (concat scenario2_no_K_lines)"
    by (simp add: scenario2_no_K_lines_def newline_def)
  have scan: "scan_lines decimal_reader ''0'' scenario2_no_K_lines (loop_start empty_CameraParams) =
    Inr \<lparr>obj = empty_CameraParams
           \<lparr>frame_rate := Finite 0.1,
            image_size := (1242, 375),
            distortion_coeff :=
              \<lparr>rows = 1, cols = 5, data = [Finite 1, Finite 2, Finite 3, Finite 4, Finite 5]\<rparr>\<rparr>,
         cvR = \<lparr>rows = 3, cols = 3,
                data = [Finite 0, Finite 1, Finite 0, Finite 1, Finite 0, Finite 0,
                        Finite 0, Finite 0, Finite 1]\<rparr>,
         cvT = \<lparr>rows = 3, cols = 1, data = [Finite 7, Finite 8, Finite 9]\<rparr>,
         distortion_coeff5 = [Finite 1, Finite 2, Finite 3, Finite 4, Finite 5]\<rparr>"
    by (simp add: scenario2_no_K_lines_def loop_start_def empty_CameraParams_def line_eval
        Mat_zeros_3_3 Mat_zeros_3_1 Mat_zeros_1_5)
  show ?thesis
    unfolding parseKITTICalib_join_lines [OF clean] scan Mat_eye_3_3 Mat_zeros_3_1(1)
    by (simp add: after_loop_def mat_eval empty_CameraParams_def Let_def)
qed

lemma parse_K_D:
  "parseKITTICalib decimal_reader [''calib.txt'' \<mapsto> join_lines scenario2_K_D_lines]
     ''calib.txt'' (Mat_eye 3 3) (Mat_zeros 3 1) ''0'' empty_CameraParams =
   Inr (True,
        scenario2_model
          \<lparr>image_size := (0, 0),
           body_Pose_cam := \<lparr>rotation = Mat_zeros 3 3, translation = Mat_zeros 3 1\<rparr>\<rparr>)"
proof -
  have clean: "newline \<notin> set (concat scenario2_K_D_lines)"
    by (simp add: scenario2_K_D_lines_def newline_def)
  have scan: "scan_lines decimal_reader ''0'' scenario2_K_D_lines (loop_start empty_CameraParams) =
    Inr \<lparr>obj = empty_CameraParams
           \<lparr>frame_rate := Finite 0.1,
            intrinsics := [Finite 721, Finite 721, Finite 609, Finite 172],
            camera_matrix :=
              \<lparr>rows = 3, cols = 3,
               data = [Finite 721, Finite 0, Finite 609, Finite 0, Finite 721, Finite 172,
                       Finite 0, Finite 0, Finite 1]\<rparr>,
            distortion_coeff :=
              \<lparr>rows = 1, cols = 5, data = [Finite 1, Finite 2, Finite 3, Finite 4, Finite 5]\<rparr>\<rparr>,
         cvR = Mat_zeros 3 3,
         cvT = Mat_zeros 3 1,
         distortion_coeff5 = [Finite 1, Finite 2, Finite 3, Finite 4, Finite 5]\<rparr>"
    by (simp add: scenario2_K_D_lines_def loop_start_def empty_CameraParams_def line_eval
        Mat_zeros_1_5 intrinsics_to_camera_matrix_data)
  show ?thesis
    unfolding parseKITTICalib_join_lines [OF clean] scan Mat_eye_3_3 Mat_zeros_3_1(1) Mat_zeros_3_3
    by (simp add: after_loop_def mat_eval Cvmats2pose_def scenario2_model_def
        empty_CameraParams_def Let_def)
qed

lemma without_K_D:
  "without ''S_'' ''0'' scenario2_K_D_lines = scenario2_K_D_lines"
  "without ''R_'' ''0'' scenario2_K_D_lines = scenario2_K_D_lines"
  "without ''T_'' ''0'' scenario2_K_D_lines = scenario2_K_D_lines"
  by (simp_all add: without_def scenario2_K_D_lines_def read_label_def isspace_def label_of_def)

subsection \<open>The claims\<close>

text \<open>
  C1. After a successful parse by either parser the camera matrix is the 3x3 identity
  with the intrinsics written over it: \<open>fx\<close> at (0,0), \<open>fy\<close> at (1,1), \<open>cx\<close> at (0,2)
  and \<open>cy\<close> at (1,2). For the legacy parser the object parsed into is a fresh one (fewer
  than four intrinsics), or one whose camera matrix already was the one of its intrinsics.
\<close>

theorem camera_matrix_from_intrinsics:
  "(parseYAML yaml_files yaml_path this = Inr (b, m) \<longrightarrow>
      4 \<le> length (intrinsics m) \<and>
      camera_matrix m =
        \<lparr>rows = 3, cols = 3,
         data = [intrinsics m ! 0, Finite 0, intrinsics m ! 2,
                 Finite 0, intrinsics m ! 1, intrinsics m ! 3,
                 Finite 0, Finite 0, Finite 1]\<rparr> \<and>
      mat_at (camera_matrix m) 0 0 = intrinsics m ! 0 \<and>
      mat_at (camera_matrix m) 1 1 = intrinsics m ! 1 \<and>
      mat_at (camera_matrix m) 0 2 = intrinsics m ! 2 \<and>
      mat_at (camera_matrix m) 1 2 = intrinsics m ! 3) \<and>
   (parseKITTICalib rd files filepath R_cam_to_imu T_cam_to_imu cam_id this' = Inr (b', m') \<and>
    (length (intrinsics this') < 4 \<or>
     camera_matrix this' = intrinsics_to_camera_matrix (intrinsics this')) \<longrightarrow>
      4 \<le> length (intrinsics m') \<and>
      camera_matrix m' =
        \<lparr>rows = 3, cols = 3,
         data = [intrinsics m' ! 0, Finite 0, intrinsics m' ! 2,
                 Finite 0, intrinsics m' ! 1, intrinsics m' ! 3,
                 Finite 0, Finite 0, Finite 1]\<rparr> \<and>
      mat_at (camera_matrix m') 0 0 = intrinsics m' ! 0 \<and>
      mat_at (camera_matrix m') 1 1 = intrinsics m' ! 1 \<and>
      mat_at (camera_matrix m') 0 2 = intrinsics m' ! 2 \<and>
      mat_at (camera_matrix m') 1 2 = intrinsics m' ! 3)"
proof (rule conjI; rule impI)
  assume yaml: "parseYAML yaml_files yaml_path this = Inr (b, m)"
  note built = parseYAML_camera_matrix [OF yaml]
  from built(1) camera_matrix_entries [OF built(2)]
  show "4 \<le> length (intrinsics m) \<and>
      camera_matrix m =
        \<lparr>rows = 3, cols = 3,
         data = [intrinsics m ! 0, Finite 0, intrinsics m ! 2,
                 Finite 0, intrinsics m ! 1, intrinsics m ! 3,
                 Finite 0, Finite 0, Finite 1]\<rparr> \<and>
      mat_at (camera_matrix m) 0 0 = intrinsics m ! 0 \<and>
      mat_at (camera_matrix m) 1 1 = intrinsics m ! 1 \<and>
      mat_at (camera_matrix m) 0 2 = intrinsics m ! 2 \<and>
      mat_at (camera_matrix m) 1 2 = intrinsics m ! 3"
    by blast
next
  assume kitti: "parseKITTICalib rd files filepath R_cam_to_imu T_cam_to_imu cam_id this' =
      Inr (b', m') \<and>
    (length (intrinsics this') < 4 \<or>
     camera_matrix this' = intrinsics_to_camera_matrix (intrinsics this'))"
  then have parsed: "parseKITTICalib rd files filepath R_cam_to_imu T_cam_to_imu cam_id this' =
      Inr (b', m')"
    and before: "length (intrinsics this') < 4 \<or>
     camera_matrix this' = intrinsics_to_camera_matrix (intrinsics this')"
    by simp_all
  note built = parseKITTICalib_camera_matrix [OF parsed before]
  from built(1) camera_matrix_entries [OF built(2)]
  show "4 \<le> length (intrinsics m') \<and>
      camera_matrix m' =
        \<lparr>rows = 3, cols = 3,
         data = [intrinsics m' ! 0, Finite 0, intrinsics m' ! 2,
                 Finite 0, intrinsics m' ! 1, intrinsics m' ! 3,
                 Finite 0, Finite 0, Finite 1]\<rparr> \<and>
      mat_at (camera_matrix m') 0 0 = intrinsics m' ! 0 \<and>
      mat_at (camera_matrix m') 1 1 = intrinsics m' ! 1 \<and>
      mat_at (camera_matrix m') 0 2 = intrinsics m' ! 2 \<and>
      mat_at (camera_matrix m') 1 2 = intrinsics m' ! 3"
    by blast
qed

theorem camera_matrix_from_intrinsics_witness:
  "parseYAML [''cam.yaml'' \<mapsto> scenario1] ''cam.yaml'' empty_CameraParams =
     Inr (True, scenario1_model) \<and>
   4 \<le> length (intrinsics scenario1_model) \<and>
   camera_matrix scenario1_model =
     \<lparr>rows = 3, cols = 3,
      data = [intrinsics scenario1_model ! 0, Finite 0, intrinsics scenario1_model ! 2,
              Finite 0, intrinsics scenario1_model ! 1, intrinsics scenario1_model ! 3,
              Finite 0, Finite 0, Finite 1]\<rparr> \<and>
   mat_at (camera_matrix scenario1_model) 0 0 = intrinsics scenario1_model ! 0 \<and>
   mat_at (camera_matrix scenario1_model) 1 1 = intrinsics scenario1_model ! 1 \<and>
   mat_at (camera_matrix scenario1_model) 0 2 = intrinsics scenario1_model ! 2 \<and>
   mat_at (camera_matrix scenario1_model) 1 2 = intrinsics scenario1_model ! 3 \<and>
   parseKITTICalib decimal_reader [''calib.txt'' \<mapsto> join_lines scenario2_lines] ''calib.txt''
     (Mat_eye 3 3) (Mat_zeros 3 1) ''0'' empty_CameraParams = Inr (True, scenario2_model) \<and>
   length (intrinsics empty_CameraParams) < 4 \<and>
   4 \<le> length (intrinsics scenario2_model) \<and>
   camera_matrix scenario2_model =
     \<lparr>rows = 3, cols = 3,
      data = [intrinsics scenario2_model ! 0, Finite 0, intrinsics scenario2_model ! 2,
              Finite 0, intrinsics scenario2_model ! 1, intrinsics scenario2_model ! 3,
              Finite 0, Finite 0, Finite 1]\<rparr> \<and>
   mat_at (camera_matrix scenario2_model) 0 0 = intrinsics scenario2_model ! 0 \<and>
   mat_at (camera_matrix scenario2_model) 1 1 = intrinsics scenario2_model ! 1 \<and>
   mat_at (camera_matrix scenario2_model) 0 2 = intrinsics scenario2_model ! 2 \<and>
   mat_at (camera_matrix scenario2_model) 1 2 = intrinsics scenario2_model ! 3"
proof -
  have fresh: "length (intrinsics empty_CameraParams) < 4"
    by (simp add: empty_CameraParams_def)
  note both = camera_matrix_from_intrinsics
    [where yaml_files = "[''cam.yaml'' \<mapsto> scenario1]" and yaml_path = "''cam.yaml''"
       and this = empty_CameraParams and b = True and m = scenario1_model
       and rd = decimal_reader and files = "[''calib.txt'' \<mapsto> join_lines scenario2_lines]"
       and filepath = "''calib.txt''" and R_cam_to_imu = "Mat_eye 3 3"
       and T_cam_to_imu = "Mat_zeros 3 1" and cam_id = "''0''"
       and this' = empty_CameraParams and b' = True and m' = scenario2_model]
  from both parseYAML_scenario1 parse_scenario2 fresh show ?thesis
    by blast
qed

text \<open>
  C3. After a legacy parse, the rotation of the pose is the matrix product of the caller's
  rotation and the parsed rotation, and the translation is the sum of the caller's
  translation and the parsed translation. The parsed rotation and translation are what the
  read loop leaves in \<^verbatim>\<open>cvR\<close> and \<^verbatim>\<open>cvT\<close>: the first nine, respectively three,
  numbers of the last \<open>R\<close>, respectively \<open>T\<close>, record of the file, when the record has as
  many. With the identity for the caller's
  rotation the pose has the parsed rotation itself, and with a zero translation the
  parsed translation itself.
\<close>

theorem parseKITTICalib_pose_composition:
  assumes "parseKITTICalib rd files filepath R_cam_to_imu T_cam_to_imu cam_id this = Inr (b, m)"
    and "files filepath = Some calib_file"
  shows "\<exists>st. read_loop rd files filepath cam_id this = Inr st \<and>
           mat_mul R_cam_to_imu (cvR st) = Inr (rotation (body_Pose_cam m)) \<and>
           mat_add T_cam_to_imu (cvT st) = Inr (translation (body_Pose_cam m)) \<and>
           (R_cam_to_imu = Mat_eye 3 3 \<longrightarrow> rotation (body_Pose_cam m) = cvR st) \<and>
           (T_cam_to_imu = Mat_zeros 3 1 \<longrightarrow> translation (body_Pose_cam m) = cvT st) \<and>
           (\<forall>pre l post.
              getlines calib_file = pre @ l # post \<and>
              fst (read_label l) = label_of ''R_'' cam_id \<and>
              without ''R_'' cam_id post = post \<and>
              9 \<le> length (read_all rd (snd (read_label l))) \<longrightarrow>
              cvR st = \<lparr>rows = 3, cols = 3,
                        data = map Finite (take 9 (read_all rd (snd (read_label l))))\<rparr>) \<and>
           (\<forall>pre l post.
              getlines calib_file = pre @ l # post \<and>
              fst (read_label l) = label_of ''T_'' cam_id \<and>
              without ''T_'' cam_id post = post \<and>
              3 \<le> length (read_all rd (snd (read_label l))) \<longrightarrow>
              cvT st = \<lparr>rows = 3, cols = 1,
                        data = map Finite (take 3 (read_all rd (snd (read_label l))))\<rparr>)"
  using assms(1)
proof (rule parseKITTICalib_Inr)
  fix calib_file' st R T
  assume opened: "files filepath = Some calib_file'"
    and loop: "read_loop rd files filepath cam_id this = Inr st"
    and scan': "scan_lines rd cam_id (getlines calib_file') (loop_start this) = Inr st"
    and R: "mat_mul R_cam_to_imu (cvR st) = Inr R"
    and T: "mat_add T_cam_to_imu (cvT st) = Inr T"
    and m: "m = (obj st)\<lparr>body_Pose_cam := Cvmats2pose R T,
                   calibration :=
                     make_Cal3DS2 (intrinsics (obj st) ! 0) (intrinsics (obj st) ! 1) (Finite 0)
                       (intrinsics (obj st) ! 2) (intrinsics (obj st) ! 3)
                       (distortion_coeff5 st ! 0) (distortion_coeff5 st ! 1)
                       (distortion_coeff5 st ! 2) (distortion_coeff5 st ! 3)\<rparr>"
  from opened assms(2) scan'
  have scan: "scan_lines rd cam_id (getlines calib_file) (loop_start this) = Inr st"
    by simp
  from m have pose: "rotation (body_Pose_cam m) = R" "translation (body_Pose_cam m) = T"
    by (simp_all add: Cvmats2pose_def)
  have "R_cam_to_imu = Mat_eye 3 3 \<longrightarrow> R = cvR st"
    using R mat_mul_eye [OF scan_lines_finite(1) [OF scan]] by auto
  moreover have "T_cam_to_imu = Mat_zeros 3 1 \<longrightarrow> T = cvT st"
    using T mat_add_zeros [OF scan_lines_finite(2) [OF scan]] by auto
  moreover have "\<forall>pre l post.
      getlines calib_file = pre @ l # post \<and>
      fst (read_label l) = label_of ''R_'' cam_id \<and>
      without ''R_'' cam_id post = post \<and>
      9 \<le> length (read_all rd (snd (read_label l))) \<longrightarrow>
      cvR st = \<lparr>rows = 3, cols = 3,
                data = map Finite (take 9 (read_all rd (snd (read_label l))))\<rparr>"
  proof (intro allI impI)
    fix pre l post
    assume last: "getlines calib_file = pre @ l # post \<and>
      fst (read_label l) = label_of ''R_'' cam_id \<and>
      without ''R_'' cam_id post = post \<and>
      9 \<le> length (read_all rd (snd (read_label l)))"
    with scan have "scan_lines rd cam_id (pre @ l # post) (loop_start this) = Inr st"
      by simp
    from scan_lines_last_R [OF this] last
    show "cvR st = \<lparr>rows = 3, cols = 3,
                data = map Finite (take 9 (read_all rd (snd (read_label l))))\<rparr>"
      by blast
  qed
  moreover have "\<forall>pre l post.
      getlines calib_file = pre @ l # post \<and>
      fst (read_label l) = label_of ''T_'' cam_id \<and>
      without ''T_'' cam_id post = post \<and>
      3 \<le> length (read_all rd (snd (read_label l))) \<longrightarrow>
      cvT st = \<lparr>rows = 3, cols = 1,
                data = map Finite (take 3 (read_all rd (snd (read_label l))))\<rparr>"
  proof (intro allI impI)
    fix pre l post
    assume last: "getlines calib_file = pre @ l # post \<and>
      fst (read_label l) = label_of ''T_'' cam_id \<and>
      without ''T_'' cam_id post = post \<and>
      3 \<le> length (read_all rd (snd (read_label l)))"
    with scan have "scan_lines rd cam_id (pre @ l # post) (loop_start this) = Inr st"
      by simp
    from scan_lines_last_T [OF this] last
    show "cvT st = \<lparr>rows = 3, cols = 1,
                data = map Finite (take 3 (read_all rd (snd (read_label l))))\<rparr>"
      by blast
  qed
  ultimately show ?thesis
    using loop R T pose by auto
qed

theorem parseKITTICalib_pose_composition_witness:
  "parseKITTICalib decimal_reader [''calib.txt'' \<mapsto> join_lines scenario2_lines] ''calib.txt''
     (Mat_eye 3 3) (Mat_zeros 3 1) ''0'' empty_CameraParams = Inr (True, scenario2_model) \<and>
   [''calib.txt'' \<mapsto> join_lines scenario2_lines] ''calib.txt'' = Some (join_lines scenario2_lines) \<and>
   getlines (join_lines scenario2_lines) =
     [''S_0: 1242 375'', ''K_0: 721 0 609 0 721 172 0 0 1'', ''D_0: 1 2 3 4 5''] @
     ''R_0: 0 1 0 1 0 0 0 0 1'' # [''T_0: 7 8 9''] \<and>
   fst (read_label ''R_0: 0 1 0 1 0 0 0 0 1'') = label_of ''R_'' ''0'' \<and>
   without ''R_'' ''0'' [''T_0: 7 8 9''] = [''T_0: 7 8 9''] \<and>
   9 \<le> length (read_all decimal_reader (snd (read_label ''R_0: 0 1 0 1 0 0 0 0 1''))) \<and>
   getlines (join_lines scenario2_lines) =
     [''S_0: 1242 375'', ''K_0: 721 0 609 0 721 172 0 0 1'', ''D_0: 1 2 3 4 5'',
      ''R_0: 0 1 0 1 0 0 0 0 1''] @ ''T_0: 7 8 9'' # [] \<and>
   fst (read_label ''T_0: 7 8 9'') = label_of ''T_'' ''0'' \<and>
   without ''T_'' ''0'' [] = [] \<and>
   3 \<le> length (read_all decimal_reader (snd (read_label ''T_0: 7 8 9''))) \<and>
   (\<exists>st. read_loop decimal_reader [''calib.txt'' \<mapsto> join_lines scenario2_lines] ''calib.txt''
           ''0'' empty_CameraParams = Inr st \<and>
         mat_mul (Mat_eye 3 3) (cvR st) = Inr (rotation (body_Pose_cam scenario2_model)) \<and>
         mat_add (Mat_zeros 3 1) (cvT st) = Inr (translation (body_Pose_cam scenario2_model)) \<and>
         rotation (body_Pose_cam scenario2_model) = cvR st \<and>
         translation (body_Pose_cam scenario2_model) = cvT st) \<and>
   rotation (body_Pose_cam scenario2_model) =
     \<lparr>rows = 3, cols = 3,
      data = map Finite
               (take 9 (read_all decimal_reader (snd (read_label ''R_0: 0 1 0 1 0 0 0 0 1''))))\<rparr> \<and>
   translation (body_Pose_cam scenario2_model) =
     \<lparr>rows = 3, cols = 1,
      data = map Finite (take 3 (read_all decimal_reader (snd (read_label ''T_0: 7 8 9''))))\<rparr>"
proof -
  have opened: "[''calib.txt'' \<mapsto> join_lines scenario2_lines] ''calib.txt'' =
      Some (join_lines scenario2_lines)"
    by simp
  have "scenario2_lines \<noteq> []"
    by (simp add: scenario2_lines_def)
  from getlines_join_lines [OF this scenario_clean(1)]
  have split_R: "getlines (join_lines scenario2_lines) =
      [''S_0: 1242 375'', ''K_0: 721 0 609 0 721 172 0 0 1'', ''D_0: 1 2 3 4 5''] @
      ''R_0: 0 1 0 1 0 0 0 0 1'' # [''T_0: 7 8 9'']"
    and split_T: "getlines (join_lines scenario2_lines) =
      [''S_0: 1242 375'', ''K_0: 721 0 609 0 721 172 0 0 1'', ''D_0: 1 2 3 4 5'',
       ''R_0: 0 1 0 1 0 0 0 0 1''] @ ''T_0: 7 8 9'' # []"
    by (simp_all add: scenario2_lines_def)
  have labels: "fst (read_label ''R_0: 0 1 0 1 0 0 0 0 1'') = label_of ''R_'' ''0''"
    "fst (read_label ''T_0: 7 8 9'') = label_of ''T_'' ''0''"
    by (simp_all add: read_label_def isspace_def label_of_def)
  have last: "without ''R_'' ''0'' [''T_0: 7 8 9''] = [''T_0: 7 8 9'']"
    "without ''T_'' ''0'' [] = []"
    by (simp_all add: without_def read_label_def isspace_def label_of_def)
  have counts: "9 \<le> length (read_all decimal_reader (snd (read_label ''R_0: 0 1 0 1 0 0 0 0 1'')))"
    "3 \<le> length (read_all decimal_reader (snd (read_label ''T_0: 7 8 9'')))"
    by (simp_all add: read_label_def isspace_def read_all.simps read_double_def
        decimal_reader_def is_digit_def digit_value_def)
  from parseKITTICalib_pose_composition [OF parse_scenario2 opened]
  obtain st where st:
    "read_loop decimal_reader [''calib.txt'' \<mapsto> join_lines scenario2_lines] ''calib.txt''
       ''0'' empty_CameraParams = Inr st"
    "mat_mul (Mat_eye 3 3) (cvR st) = Inr (rotation (body_Pose_cam scenario2_model))"
    "mat_add (Mat_zeros 3 1) (cvT st) = Inr (translation (body_Pose_cam scenario2_model))"
    "rotation (body_Pose_cam scenario2_model) = cvR st"
    "translation (body_Pose_cam scenario2_model) = cvT st"
    and last_R: "\<And>pre l post.
        getlines (join_lines scenario2_lines) = pre @ l # post \<Longrightarrow>
        fst (read_label l) = label_of ''R_'' ''0'' \<Longrightarrow>
        without ''R_'' ''0'' post = post \<Longrightarrow>
        9 \<le> length (read_all decimal_reader (snd (read_label l))) \<Longrightarrow>
        cvR st = \<lparr>rows = 3, cols = 3,
                  data = map Finite (take 9 (read_all decimal_reader (snd (read_label l))))\<rparr>"
    and last_T: "\<And>pre l post.
        getlines (join_lines scenario2_lines) = pre @ l # post \<Longrightarrow>
        fst (read_label l) = label_of ''T_'' ''0'' \<Longrightarrow>
        without ''T_'' ''0'' post = post \<Longrightarrow>
        3 \<le> length (read_all decimal_reader (snd (read_label l))) \<Longrightarrow>
        cvT st = \<lparr>rows = 3, cols = 1,
                  data = map Finite (take 3 (read_all decimal_reader (snd (read_label l))))\<rparr>"
    by blast
  from last_R [OF split_R labels(1) last(1) counts(1)] st(4)
  have rot: "rotation (body_Pose_cam scenario2_model) =
     \<lparr>rows = 3, cols = 3,
      data = map Finite
               (take 9 (read_all decimal_reader (snd (read_label ''R_0: 0 1 0 1 0 0 0 0 1''))))\<rparr>"
    by simp
  from last_T [OF split_T labels(2) last(2) counts(2)] st(5)
  have tra: "translation (body_Pose_cam scenario2_model) =
     \<lparr>rows = 3, cols = 1,
      data = map Finite (take 3 (read_all decimal_reader (snd (read_label ''T_0: 7 8 9''))))\<rparr>"
    by simp
  from st have composed:
    "\<exists>st. read_loop decimal_reader [''calib.txt'' \<mapsto> join_lines scenario2_lines] ''calib.txt''
           ''0'' empty_CameraParams = Inr st \<and>
         mat_mul (Mat_eye 3 3) (cvR st) = Inr (rotation (body_Pose_cam scenario2_model)) \<and>
         mat_add (Mat_zeros 3 1) (cvT st) = Inr (translation (body_Pose_cam scenario2_model)) \<and>
         rotation (body_Pose_cam scenario2_model) = cvR st \<and>
         translation (body_Pose_cam scenario2_model) = cvT st"
    by blast
  from parse_scenario2 opened split_R labels(1) last(1) counts(1) split_T labels(2) last(2)
    counts(2) composed rot tra
  show ?thesis
    by (intro conjI)
qed

text \<open>
  C7. A non-blank line whose label is none of the five recognized labels of the camera
  leaves the object and the locals of the read loop as they are; and a file gives the same
  result, a success included, as the file without its unrecognized lines.
\<close>

theorem unrecognized_lines_ignored:
  "(line \<noteq> [] \<and> \<not> recognized cam_id (fst (read_label line)) \<longrightarrow>
      process_line rd cam_id line st = Inr st) \<and>
   (newline \<notin> set (concat ls) \<longrightarrow>
      parseKITTICalib rd (files(filepath \<mapsto> join_lines ls)) filepath
        R_cam_to_imu T_cam_to_imu cam_id this =
      parseKITTICalib rd
        (files(filepath \<mapsto>
           join_lines (filter (\<lambda>l. l = [] \<or> recognized cam_id (fst (read_label l))) ls)))
        filepath R_cam_to_imu T_cam_to_imu cam_id this)"
proof (intro conjI impI)
  assume "line \<noteq> [] \<and> \<not> recognized cam_id (fst (read_label line))"
  then show "process_line rd cam_id line st = Inr st"
    by (simp add: process_line_other)
next
  assume clean: "newline \<notin> set (concat ls)"
  let ?kept = "filter (\<lambda>l. l = [] \<or> recognized cam_id (fst (read_label l))) ls"
  from clean have "newline \<notin> set (concat ?kept)"
    by (rule concat_filter_subset)
  then have "scan_lines rd cam_id (getlines (join_lines ?kept)) (loop_start this) =
      scan_lines rd cam_id ?kept (loop_start this)"
    by (rule scan_lines_join_lines)
  also have "\<dots> = scan_lines rd cam_id ls (loop_start this)"
    by (rule scan_lines_skip)
  also have "\<dots> = scan_lines rd cam_id (getlines (join_lines ls)) (loop_start this)"
    using clean by (simp add: scan_lines_join_lines)
  finally show "parseKITTICalib rd (files(filepath \<mapsto> join_lines ls)) filepath
        R_cam_to_imu T_cam_to_imu cam_id this =
      parseKITTICalib rd (files(filepath \<mapsto> join_lines ?kept))
        filepath R_cam_to_imu T_cam_to_imu cam_id this"
    by (simp add: parseKITTICalib_def read_loop_def)
qed

theorem unrecognized_lines_ignored_witness:
  "''K_1: 2 2 2 2 2 2 2 2 2'' \<noteq> [] \<and>
   \<not> recognized ''0'' (fst (read_label ''K_1: 2 2 2 2 2 2 2 2 2'')) \<and>
   process_line decimal_reader ''0'' ''K_1: 2 2 2 2 2 2 2 2 2'' (loop_start empty_CameraParams) =
     Inr (loop_start empty_CameraParams) \<and>
   newline \<notin> set (concat scenario3_lines) \<and>
   parseKITTICalib decimal_reader [''calib.txt'' \<mapsto> join_lines scenario3_lines] ''calib.txt''
     (Mat_eye 3 3) (Mat_zeros 3 1) ''0'' empty_CameraParams =
   parseKITTICalib decimal_reader [''calib.txt'' \<mapsto> join_lines scenario2_lines] ''calib.txt''
     (Mat_eye 3 3) (Mat_zeros 3 1) ''0'' empty_CameraParams \<and>
   parseKITTICalib decimal_reader [''calib.txt'' \<mapsto> join_lines scenario3_lines] ''calib.txt''
     (Mat_eye 3 3) (Mat_zeros 3 1) ''0'' empty_CameraParams = Inr (True, scenario2_model)"
proof -
  have other: "''K_1: 2 2 2 2 2 2 2 2 2'' \<noteq> [] \<and>
      \<not> recognized ''0'' (fst (read_label ''K_1: 2 2 2 2 2 2 2 2 2''))"
    by (simp add: recognized_def read_label_def isspace_def label_of_def)
  note both = unrecognized_lines_ignored
    [where line = "''K_1: 2 2 2 2 2 2 2 2 2''" and cam_id = "''0''" and rd = decimal_reader
       and st = "loop_start empty_CameraParams" and ls = scenario3_lines
       and files = Map.empty and filepath = "''calib.txt''" and R_cam_to_imu = "Mat_eye 3 3"
       and T_cam_to_imu = "Mat_zeros 3 1" and this = empty_CameraParams]
  from both other have unchanged:
    "process_line decimal_reader ''0'' ''K_1: 2 2 2 2 2 2 2 2 2'' (loop_start empty_CameraParams) =
     Inr (loop_start empty_CameraParams)"
    by blast
  from both scenario_clean(2) have same:
    "parseKITTICalib decimal_reader [''calib.txt'' \<mapsto> join_lines scenario3_lines] ''calib.txt''
       (Mat_eye 3 3) (Mat_zeros 3 1) ''0'' empty_CameraParams =
     parseKITTICalib decimal_reader [''calib.txt'' \<mapsto> join_lines scenario2_lines] ''calib.txt''
       (Mat_eye 3 3) (Mat_zeros 3 1) ''0'' empty_CameraParams"
    unfolding kept_scenario3 by blast
  from other unchanged scenario_clean(2) same parse_scenario2 show ?thesis
    by simp
qed

text \<open>
  C8. After a successful legacy parse, let \<open>coeff5\<close> be the numbers of the \<open>D\<close> records of
  the file, in order. There are at least five; the first five are the stored distortion
  coefficients, the fifth (\<open>k3\<close>) among them; and the calibration is made of the four
  intrinsics, a zero skew and the first four of \<open>coeff5\<close> only.
\<close>

theorem parseKITTICalib_projection_model:
  assumes "parseKITTICalib rd files filepath R_cam_to_imu T_cam_to_imu cam_id this = Inr (b, m)"
    and "files filepath = Some calib_file"
  shows "\<exists>coeff5.
           coeff5 = concat (map (\<lambda>l. map Finite (read_all rd (snd (read_label l))))
                      (filter (\<lambda>l. fst (read_label l) = label_of ''D_'' cam_id)
                         (getlines calib_file))) \<and>
           5 \<le> length coeff5 \<and>
           distortion_coeff m = \<lparr>rows = 1, cols = 5, data = take 5 coeff5\<rparr> \<and>
           4 \<le> length (intrinsics m) \<and>
           calibration m =
             make_Cal3DS2 (intrinsics m ! 0) (intrinsics m ! 1) (Finite 0)
               (intrinsics m ! 2) (intrinsics m ! 3)
               (coeff5 ! 0) (coeff5 ! 1) (coeff5 ! 2) (coeff5 ! 3)"
  using assms(1)
proof (rule parseKITTICalib_Inr)
  fix calib_file' st R T
  assume opened: "files filepath = Some calib_file'"
    and scan: "scan_lines rd cam_id (getlines calib_file') (loop_start this) = Inr st"
    and four: "4 \<le> length (intrinsics (obj st))" "4 \<le> length (distortion_coeff5 st)"
    and m: "m = (obj st)\<lparr>body_Pose_cam := Cvmats2pose R T,
                   calibration :=
                     make_Cal3DS2 (intrinsics (obj st) ! 0) (intrinsics (obj st) ! 1) (Finite 0)
                       (intrinsics (obj st) ! 2) (intrinsics (obj st) ! 3)
                       (distortion_coeff5 st ! 0) (distortion_coeff5 st ! 1)
                       (distortion_coeff5 st ! 2) (distortion_coeff5 st ! 3)\<rparr>"
  from opened assms(2) have same: "calib_file' = calib_file" by simp
  have "distortion_coeff5 (loop_start this) = []"
    by (simp add: loop_start_def)
  with scan_lines_distortion_coeff5 [OF scan] same
  have parsed: "distortion_coeff5 st =
      concat (map (\<lambda>l. map Finite (read_all rd (snd (read_label l))))
                (filter (\<lambda>l. fst (read_label l) = label_of ''D_'' cam_id)
                   (getlines calib_file)))"
    by simp
  from scan_lines_distortion [OF scan] four(2)
  have stored: "5 \<le> length (distortion_coeff5 st)"
    "distortion_coeff (obj st) = \<lparr>rows = 1, cols = 5, data = take 5 (distortion_coeff5 st)\<rparr>"
    by auto
  show ?thesis
    using parsed stored four(1) m by simp
qed

theorem parseKITTICalib_projection_model_witness:
  "parseKITTICalib decimal_reader [''calib.txt'' \<mapsto> join_lines scenario2_lines] ''calib.txt''
     (Mat_eye 3 3) (Mat_zeros 3 1) ''0'' empty_CameraParams = Inr (True, scenario2_model) \<and>
   [''calib.txt'' \<mapsto> join_lines scenario2_lines] ''calib.txt'' = Some (join_lines scenario2_lines) \<and>
   (\<exists>coeff5.
      coeff5 = concat (map (\<lambda>l. map Finite (read_all decimal_reader (snd (read_label l))))
                 (filter (\<lambda>l. fst (read_label l) = label_of ''D_'' ''0'')
                    (getlines (join_lines scenario2_lines)))) \<and>
      5 \<le> length coeff5 \<and>
      distortion_coeff scenario2_model = \<lparr>rows = 1, cols = 5, data = take 5 coeff5\<rparr> \<and>
      4 \<le> length (intrinsics scenario2_model) \<and>
      calibration scenario2_model =
        make_Cal3DS2 (intrinsics scenario2_model ! 0) (intrinsics scenario2_model ! 1) (Finite 0)
          (intrinsics scenario2_model ! 2) (intrinsics scenario2_model ! 3)
          (coeff5 ! 0) (coeff5 ! 1) (coeff5 ! 2) (coeff5 ! 3)) \<and>
   mat_at (distortion_coeff scenario2_model) 0 4 = Finite 5 \<and>
   calibration scenario2_model =
     make_Cal3DS2 (Finite 721) (Finite 721) (Finite 0) (Finite 609) (Finite 172)
       (Finite 1) (Finite 2) (Finite 3) (Finite 4)"
proof -
  have opened: "[''calib.txt'' \<mapsto> join_lines scenario2_lines] ''calib.txt'' =
      Some (join_lines scenario2_lines)"
    by simp
  note built = parseKITTICalib_projection_model [OF parse_scenario2 opened]
  have stored: "mat_at (distortion_coeff scenario2_model) 0 4 = Finite 5"
    "calibration scenario2_model =
     make_Cal3DS2 (Finite 721) (Finite 721) (Finite 0) (Finite 609) (Finite 172)
       (Finite 1) (Finite 2) (Finite 3) (Finite 4)"
    by (simp_all add: scenario2_model_def mat_at_def)
  from parse_scenario2 opened built stored show ?thesis
    by (intro conjI)
qed

text \<open>
  C9, as the spec has it: when a recognized label never occurs, the parse still completes
  and the field keeps a zero default, for each of the five labels. Scenario 2 without its
  \<open>K\<close> record does not complete: no intrinsics were read, and building the calibration
  indexes the empty vector.
\<close>

theorem missing_K_record_fails:
  "parseKITTICalib decimal_reader [''calib.txt'' \<mapsto> join_lines scenario2_no_K_lines]
     ''calib.txt'' (Mat_eye 3 3) (Mat_zeros 3 1) ''0'' empty_CameraParams =
   Inl UndefinedBehaviour"
  by (rule parse_no_K)

text \<open>
  C9, amended. No check of \<^verbatim>\<open>parseKITTICalib\<close> looks for a label that never occurs.
  Take a file that parses and drop all its records of one label. Without the \<open>S\<close>, the
  \<open>R\<close> or the \<open>T\<close> records the parse still completes, with the same result but for the
  field of that label: the image size is the one the object had before the call, the
  rotation of the pose is the caller's rotation times the zero matrix, the translation is
  the caller's translation plus the zero vector. Without the \<open>K\<close> records (on an object
  with fewer than four intrinsics, as a fresh one) or without the \<open>D\<close> records the parse
  does not complete: the vector indexed for the calibration is empty. So a file that
  parses has a \<open>D\<close> record, and a \<open>K\<close> record when the object is fresh.
\<close>

theorem missing_records:
  assumes clean: "newline \<notin> set (concat ls)"
    and parse: "parseKITTICalib rd (files(filepath \<mapsto> join_lines ls)) filepath
                  R_cam_to_imu T_cam_to_imu cam_id this = Inr (b, m)"
  shows "parseKITTICalib rd (files(filepath \<mapsto> join_lines (without ''S_'' cam_id ls))) filepath
           R_cam_to_imu T_cam_to_imu cam_id this =
           Inr (b, m\<lparr>image_size := image_size this\<rparr>) \<and>
         (\<exists>R0. mat_mul R_cam_to_imu (Mat_zeros 3 3) = Inr R0 \<and>
            parseKITTICalib rd (files(filepath \<mapsto> join_lines (without ''R_'' cam_id ls))) filepath
              R_cam_to_imu T_cam_to_imu cam_id this =
              Inr (b, m\<lparr>body_Pose_cam := (body_Pose_cam m)\<lparr>rotation := R0\<rparr>\<rparr>)) \<and>
         (\<exists>T0. mat_add T_cam_to_imu (Mat_zeros 3 1) = Inr T0 \<and>
            parseKITTICalib rd (files(filepath \<mapsto> join_lines (without ''T_'' cam_id ls))) filepath
              R_cam_to_imu T_cam_to_imu cam_id this =
              Inr (b, m\<lparr>body_Pose_cam := (body_Pose_cam m)\<lparr>translation := T0\<rparr>\<rparr>)) \<and>
         (length (intrinsics this) < 4 \<longrightarrow>
            parseKITTICalib rd (files(filepath \<mapsto> join_lines (without ''K_'' cam_id ls))) filepath
              R_cam_to_imu T_cam_to_imu cam_id this = Inl UndefinedBehaviour) \<and>
         parseKITTICalib rd (files(filepath \<mapsto> join_lines (without ''D_'' cam_id ls))) filepath
           R_cam_to_imu T_cam_to_imu cam_id this = Inl UndefinedBehaviour \<and>
         (without ''S_'' cam_id ls = ls \<longrightarrow> image_size m = image_size this) \<and>
         (without ''R_'' cam_id ls = ls \<longrightarrow>
            mat_mul R_cam_to_imu (Mat_zeros 3 3) = Inr (rotation (body_Pose_cam m))) \<and>
         (without ''T_'' cam_id ls = ls \<longrightarrow>
            mat_add T_cam_to_imu (Mat_zeros 3 1) = Inr (translation (body_Pose_cam m))) \<and>
         (length (intrinsics this) < 4 \<longrightarrow> without ''K_'' cam_id ls \<noteq> ls) \<and>
         without ''D_'' cam_id ls \<noteq> ls"
proof -
  from parse parseKITTICalib_join_lines [OF clean]
  obtain st where scan: "scan_lines rd cam_id ls (loop_start this) = Inr st"
    and finish: "after_loop R_cam_to_imu T_cam_to_imu st = Inr (b, m)"
    by (auto split: sum.splits)
  from finish obtain R T where
    R: "mat_mul R_cam_to_imu (cvR st) = Inr R"
    and T: "mat_add T_cam_to_imu (cvT st) = Inr T"
    and intr: "4 \<le> length (intrinsics (obj st))"
    and coeff: "4 \<le> length (distortion_coeff5 st)"
    and b: "b = True"
    and m: "m = (obj st)\<lparr>body_Pose_cam := Cvmats2pose R T,
                   calibration :=
                     make_Cal3DS2 (intrinsics (obj st) ! 0) (intrinsics (obj st) ! 1) (Finite 0)
                       (intrinsics (obj st) ! 2) (intrinsics (obj st) ! 3)
                       (distortion_coeff5 st ! 0) (distortion_coeff5 st ! 1)
                       (distortion_coeff5 st ! 2) (distortion_coeff5 st ! 3)\<rparr>"
    by (rule after_loop_Inr)
  have shape: "finite_mat 3 3 (cvR st)" "finite_mat 3 1 (cvT st)"
    using scan_lines_finite [OF scan] by simp_all

  have S: "parseKITTICalib rd (files(filepath \<mapsto> join_lines (without ''S_'' cam_id ls))) filepath
           R_cam_to_imu T_cam_to_imu cam_id this = Inr (b, m\<lparr>image_size := image_size this\<rparr>)"
  proof -
    from scan_lines_without_S [OF scan]
    have "scan_lines rd cam_id (without ''S_'' cam_id ls) (loop_start this) =
        Inr (st\<lparr>obj := (obj st)\<lparr>image_size := image_size this\<rparr>\<rparr>)"
      by (simp add: without_def loop_start_def)
    from parseKITTICalib_without [OF clean this] show ?thesis
      using R T intr coeff b m by (simp add: after_loop_def Let_def)
  qed

  from R shape(1) have fits: "cols R_cam_to_imu = 3"
    by (auto simp: mat_mul_def finite_mat_def split: if_splits)
  then obtain R0 where R0: "mat_mul R_cam_to_imu (Mat_zeros 3 3) = Inr R0"
    by (simp add: mat_mul_def Mat_zeros_def)
  have Rpart: "parseKITTICalib rd (files(filepath \<mapsto> join_lines (without ''R_'' cam_id ls))) filepath
              R_cam_to_imu T_cam_to_imu cam_id this =
              Inr (b, m\<lparr>body_Pose_cam := (body_Pose_cam m)\<lparr>rotation := R0\<rparr>\<rparr>)"
  proof -
    from scan_lines_without_R [OF scan]
    have "scan_lines rd cam_id (without ''R_'' cam_id ls) (loop_start this) =
        Inr (st\<lparr>cvR := Mat_zeros 3 3\<rparr>)"
      by (simp add: without_def loop_start_def)
    from parseKITTICalib_without [OF clean this] show ?thesis
      using R0 T intr coeff b m by (simp add: after_loop_def Cvmats2pose_def Let_def)
  qed

  from T shape(2) have "rows T_cam_to_imu = 3 \<and> cols T_cam_to_imu = 1"
    by (auto simp: mat_add_def finite_mat_def split: if_splits)
  then obtain T0 where T0: "mat_add T_cam_to_imu (Mat_zeros 3 1) = Inr T0"
    by (simp add: mat_add_def Mat_zeros_def)
  have Tpart: "parseKITTICalib rd (files(filepath \<mapsto> join_lines (without ''T_'' cam_id ls))) filepath
              R_cam_to_imu T_cam_to_imu cam_id this =
              Inr (b, m\<lparr>body_Pose_cam := (body_Pose_cam m)\<lparr>translation := T0\<rparr>\<rparr>)"
  proof -
    from scan_lines_without_T [OF scan]
    have "scan_lines rd cam_id (without ''T_'' cam_id ls) (loop_start this) =
        Inr (st\<lparr>cvT := Mat_zeros 3 1\<rparr>)"
      by (simp add: without_def loop_start_def)
    from parseKITTICalib_without [OF clean this] show ?thesis
      using R T0 intr coeff b m by (simp add: after_loop_def Cvmats2pose_def Let_def)
  qed

  have Kpart: "length (intrinsics this) < 4 \<longrightarrow>
            parseKITTICalib rd (files(filepath \<mapsto> join_lines (without ''K_'' cam_id ls))) filepath
              R_cam_to_imu T_cam_to_imu cam_id this = Inl UndefinedBehaviour"
  proof
    assume fresh: "length (intrinsics this) < 4"
    from scan_lines_without_K [OF scan]
    have "scan_lines rd cam_id (without ''K_'' cam_id ls) (loop_start this) =
        Inr (st\<lparr>obj := (obj st)\<lparr>intrinsics := intrinsics this,
                                camera_matrix := camera_matrix this\<rparr>\<rparr>)"
      by (simp add: without_def loop_start_def)
    from parseKITTICalib_without [OF clean this]
    show "parseKITTICalib rd (files(filepath \<mapsto> join_lines (without ''K_'' cam_id ls))) filepath
              R_cam_to_imu T_cam_to_imu cam_id this = Inl UndefinedBehaviour"
      using R T fresh by (simp add: after_loop_def Let_def)
  qed

  have Dpart: "parseKITTICalib rd (files(filepath \<mapsto> join_lines (without ''D_'' cam_id ls))) filepath
           R_cam_to_imu T_cam_to_imu cam_id this = Inl UndefinedBehaviour"
  proof -
    from scan_lines_without_D [OF scan]
    have "scan_lines rd cam_id (without ''D_'' cam_id ls) (loop_start this) =
        Inr (st\<lparr>obj := (obj st)\<lparr>distortion_coeff := distortion_coeff this\<rparr>,
                distortion_coeff5 := []\<rparr>)"
      by (simp add: without_def loop_start_def)
    from parseKITTICalib_without [OF clean this] show ?thesis
      using R T by (simp add: after_loop_def Let_def)
  qed

  have Sdirect: "without ''S_'' cam_id ls = ls \<longrightarrow> image_size m = image_size this"
  proof
    assume "without ''S_'' cam_id ls = ls"
    with S parse have "m = m\<lparr>image_size := image_size this\<rparr>" by simp
    then have "image_size m = image_size (m\<lparr>image_size := image_size this\<rparr>)" by simp
    then show "image_size m = image_size this" by simp
  qed
  have Rdirect: "without ''R_'' cam_id ls = ls \<longrightarrow>
      mat_mul R_cam_to_imu (Mat_zeros 3 3) = Inr (rotation (body_Pose_cam m))"
  proof
    assume "without ''R_'' cam_id ls = ls"
    with Rpart parse have "m = m\<lparr>body_Pose_cam := (body_Pose_cam m)\<lparr>rotation := R0\<rparr>\<rparr>" by simp
    then have "rotation (body_Pose_cam m) =
        rotation (body_Pose_cam (m\<lparr>body_Pose_cam := (body_Pose_cam m)\<lparr>rotation := R0\<rparr>\<rparr>))"
      by simp
    then have "rotation (body_Pose_cam m) = R0" by simp
    with R0 show "mat_mul R_cam_to_imu (Mat_zeros 3 3) = Inr (rotation (body_Pose_cam m))"
      by simp
  qed
  have Tdirect: "without ''T_'' cam_id ls = ls \<longrightarrow>
      mat_add T_cam_to_imu (Mat_zeros 3 1) = Inr (translation (body_Pose_cam m))"
  proof
    assume "without ''T_'' cam_id ls = ls"
    with Tpart parse have "m = m\<lparr>body_Pose_cam := (body_Pose_cam m)\<lparr>translation := T0\<rparr>\<rparr>" by simp
    then have "translation (body_Pose_cam m) =
        translation (body_Pose_cam (m\<lparr>body_Pose_cam := (body_Pose_cam m)\<lparr>translation := T0\<rparr>\<rparr>))"
      by simp
    then have "translation (body_Pose_cam m) = T0" by simp
    with T0 show "mat_add T_cam_to_imu (Mat_zeros 3 1) = Inr (translation (body_Pose_cam m))"
      by simp
  qed
  have Kdirect: "length (intrinsics this) < 4 \<longrightarrow> without ''K_'' cam_id ls \<noteq> ls"
    using Kpart parse by auto
  have Ddirect: "without ''D_'' cam_id ls \<noteq> ls"
    using Dpart parse by auto
  from S R0 Rpart T0 Tpart Kpart Dpart Sdirect Rdirect Tdirect Kdirect Ddirect show ?thesis
    by blast
qed

theorem missing_records_witness:
  "newline \<notin> set (concat scenario2_K_D_lines) \<and>
   parseKITTICalib decimal_reader [''calib.txt'' \<mapsto> join_lines scenario2_K_D_lines]
     ''calib.txt'' (Mat_eye 3 3) (Mat_zeros 3 1) ''0'' empty_CameraParams =
   Inr (True,
        scenario2_model
          \<lparr>image_size := (0, 0),
           body_Pose_cam := \<lparr>rotation = Mat_zeros 3 3, translation = Mat_zeros 3 1\<rparr>\<rparr>) \<and>
   without ''S_'' ''0'' scenario2_K_D_lines = scenario2_K_D_lines \<and>
   without ''R_'' ''0'' scenario2_K_D_lines = scenario2_K_D_lines \<and>
   without ''T_'' ''0'' scenario2_K_D_lines = scenario2_K_D_lines \<and>
   length (intrinsics empty_CameraParams) < 4 \<and>
   image_size
     (scenario2_model
        \<lparr>image_size := (0, 0),
         body_Pose_cam := \<lparr>rotation = Mat_zeros 3 3, translation = Mat_zeros 3 1\<rparr>\<rparr>) =
     image_size empty_CameraParams \<and>
   mat_mul (Mat_eye 3 3) (Mat_zeros 3 3) = Inr (Mat_zeros 3 3) \<and>
   mat_add (Mat_zeros 3 1) (Mat_zeros 3 1) = Inr (Mat_zeros 3 1) \<and>
   parseKITTICalib decimal_reader
     [''calib.txt'' \<mapsto> join_lines (without ''K_'' ''0'' scenario2_K_D_lines)]
     ''calib.txt'' (Mat_eye 3 3) (Mat_zeros 3 1) ''0'' empty_CameraParams =
     Inl UndefinedBehaviour \<and>
   parseKITTICalib decimal_reader
     [''calib.txt'' \<mapsto> join_lines (without ''D_'' ''0'' scenario2_K_D_lines)]
     ''calib.txt'' (Mat_eye 3 3) (Mat_zeros 3 1) ''0'' empty_CameraParams =
     Inl UndefinedBehaviour"
proof -
  have clean: "newline \<notin> set (concat scenario2_K_D_lines)"
    by (simp add: scenario2_K_D_lines_def newline_def)
  have fresh: "length (intrinsics empty_CameraParams) < 4"
    by (simp add: empty_CameraParams_def)
  note all = missing_records [where files = Map.empty, OF clean parse_K_D]
  from all without_K_D fresh show ?thesis
    using clean parse_K_D by (simp add: scenario2_model_def)
qed

text \<open>
  C10. Whenever \<^verbatim>\<open>parseYAML\<close> or \<^verbatim>\<open>parseKITTICalib\<close> returns, it returns true.
\<close>

theorem parse_returns_true:
  "(parseYAML yaml_files yaml_path this = Inr (b, m) \<longrightarrow> b = True) \<and>
   (parseKITTICalib rd files filepath R_cam_to_imu T_cam_to_imu cam_id this' = Inr (b', m') \<longrightarrow>
      b' = True)"
  by (auto elim!: parseYAML_Inr parseKITTICalib_Inr)

theorem parse_returns_true_witness:
  "parseYAML [''cam.yaml'' \<mapsto> scenario1] ''cam.yaml'' empty_CameraParams =
     Inr (fst (projr (parseYAML [''cam.yaml'' \<mapsto> scenario1] ''cam.yaml'' empty_CameraParams)),
          snd (projr (parseYAML [''cam.yaml'' \<mapsto> scenario1] ''cam.yaml'' empty_CameraParams))) \<and>
   fst (projr (parseYAML [''cam.yaml'' \<mapsto> scenario1] ''cam.yaml'' empty_CameraParams)) = True \<and>
   parseKITTICalib decimal_reader [''calib.txt'' \<mapsto> join_lines scenario2_lines] ''calib.txt''
     (Mat_eye 3 3) (Mat_zeros 3 1) ''0'' empty_CameraParams =
     Inr (fst (projr (parseKITTICalib decimal_reader
                        [''calib.txt'' \<mapsto> join_lines scenario2_lines] ''calib.txt''
                        (Mat_eye 3 3) (Mat_zeros 3 1) ''0'' empty_CameraParams)),
          snd (projr (parseKITTICalib decimal_reader
                        [''calib.txt'' \<mapsto> join_lines scenario2_lines] ''calib.txt''
                        (Mat_eye 3 3) (Mat_zeros 3 1) ''0'' empty_CameraParams))) \<and>
   fst (projr (parseKITTICalib decimal_reader
                 [''calib.txt'' \<mapsto> join_lines scenario2_lines] ''calib.txt''
                 (Mat_eye 3 3) (Mat_zeros 3 1) ''0'' empty_CameraParams)) = True"
proof -
  have y: "parseYAML [''cam.yaml'' \<mapsto> scenario1] ''cam.yaml'' empty_CameraParams =
     Inr (fst (projr (parseYAML [''cam.yaml'' \<mapsto> scenario1] ''cam.yaml'' empty_CameraParams)),
          snd (projr (parseYAML [''cam.yaml'' \<mapsto> scenario1] ''cam.yaml'' empty_CameraParams)))"
    by (simp add: parseYAML_scenario1)
  have k: "parseKITTICalib decimal_reader [''calib.txt'' \<mapsto> join_lines scenario2_lines] ''calib.txt''
     (Mat_eye 3 3) (Mat_zeros 3 1) ''0'' empty_CameraParams =
     Inr (fst (projr (parseKITTICalib decimal_reader
                        [''calib.txt'' \<mapsto> join_lines scenario2_lines] ''calib.txt''
                        (Mat_eye 3 3) (Mat_zeros 3 1) ''0'' empty_CameraParams)),
          snd (projr (parseKITTICalib decimal_reader
                        [''calib.txt'' \<mapsto> join_lines scenario2_lines] ''calib.txt''
                        (Mat_eye 3 3) (Mat_zeros 3 1) ''0'' empty_CameraParams)))"
    unfolding parse_scenario2 by simp
  note both = parse_returns_true
    [where yaml_files = "[''cam.yaml'' \<mapsto> scenario1]" and yaml_path = "''cam.yaml''"
       and this = empty_CameraParams
       and b = "fst (projr (parseYAML [''cam.yaml'' \<mapsto> scenario1] ''cam.yaml'' empty_CameraParams))"
       and m = "snd (projr (parseYAML [''cam.yaml'' \<mapsto> scenario1] ''cam.yaml'' empty_CameraParams))"
       and rd = decimal_reader and files = "[''calib.txt'' \<mapsto> join_lines scenario2_lines]"
       and filepath = "''calib.txt''" and R_cam_to_imu = "Mat_eye 3 3"
       and T_cam_to_imu = "Mat_zeros 3 1" and cam_id = "''0''" and this' = empty_CameraParams
       and b' = "fst (projr (parseKITTICalib decimal_reader
                        [''calib.txt'' \<mapsto> join_lines scenario2_lines] ''calib.txt''
                        (Mat_eye 3 3) (Mat_zeros 3 1) ''0'' empty_CameraParams))"
       and m' = "snd (projr (parseKITTICalib decimal_reader
                        [''calib.txt'' \<mapsto> join_lines scenario2_lines] ''calib.txt''
                        (Mat_eye 3 3) (Mat_zeros 3 1) ''0'' empty_CameraParams))"]
  from both y k show ?thesis
    by blast
qed

end
